theory Spec2Isabelle
  imports Complex_Main
begin

section \<open>JavaScript numbers\<close>

text \<open>
  Every numeric value of \<^verbatim>\<open>App.tsx\<close> is a JavaScript \<^verbatim>\<open>number\<close>. The model keeps
  the three special values of the language apart from the finite ones, so that a division
  by zero, a \<^verbatim>\<open>NaN\<close> comparison and the truthiness test behave as they do in the
  program. A finite value is an exact real: these operations do not round their result
  to a double (the projection of the chart also has a variant with rounding, below), and
  the sign of zero is not modelled (zero is the positive zero).
\<close>

datatype number = Num real | Infinity | NegInfinity | NaN

fun is_finite :: "number \<Rightarrow> bool" where
  "is_finite (Num r) = True"
| "is_finite _ = False"

fun js_neg :: "number \<Rightarrow> number" where
  "js_neg (Num r) = Num (- r)"
| "js_neg Infinity = NegInfinity"
| "js_neg NegInfinity = Infinity"
| "js_neg NaN = NaN"

text \<open>\<^verbatim>\<open>a + b\<close>: opposite infinities cancel to \<^verbatim>\<open>NaN\<close>.\<close>

fun js_add :: "number \<Rightarrow> number \<Rightarrow> number" where
  "js_add (Num a) (Num b) = Num (a + b)"
| "js_add NaN _ = NaN"
| "js_add _ NaN = NaN"
| "js_add Infinity NegInfinity = NaN"
| "js_add NegInfinity Infinity = NaN"
| "js_add Infinity _ = Infinity"
| "js_add _ Infinity = Infinity"
| "js_add NegInfinity _ = NegInfinity"
| "js_add _ NegInfinity = NegInfinity"

definition js_sub :: "number \<Rightarrow> number \<Rightarrow> number" where
  "js_sub a b = js_add a (js_neg b)"

text \<open>The infinity of the sign of a real; zero counts as positive.\<close>

definition inf_of_sign :: "real \<Rightarrow> number" where
  "inf_of_sign r = (if r < 0 then NegInfinity else Infinity)"

text \<open>\<^verbatim>\<open>a * b\<close>: an infinity times zero is \<^verbatim>\<open>NaN\<close>.\<close>

fun js_mul :: "number \<Rightarrow> number \<Rightarrow> number" where
  "js_mul (Num a) (Num b) = Num (a * b)"
| "js_mul NaN _ = NaN"
| "js_mul _ NaN = NaN"
| "js_mul (Num a) Infinity = (if a = 0 then NaN else inf_of_sign a)"
| "js_mul (Num a) NegInfinity = (if a = 0 then NaN else inf_of_sign (- a))"
| "js_mul Infinity (Num b) = (if b = 0 then NaN else inf_of_sign b)"
| "js_mul NegInfinity (Num b) = (if b = 0 then NaN else inf_of_sign (- b))"
| "js_mul Infinity Infinity = Infinity"
| "js_mul NegInfinity NegInfinity = Infinity"
| "js_mul Infinity NegInfinity = NegInfinity"
| "js_mul NegInfinity Infinity = NegInfinity"

text \<open>
  \<^verbatim>\<open>a / b\<close> never raises: a non-zero finite value over zero is an infinity, zero over
  zero and an infinity over an infinity are \<^verbatim>\<open>NaN\<close>, a finite value over an infinity
  is zero.
\<close>

fun js_div :: "number \<Rightarrow> number \<Rightarrow> number" where
  "js_div (Num a) (Num b) =
     (if b = 0 then (if a = 0 then NaN else inf_of_sign a) else Num (a / b))"
| "js_div NaN _ = NaN"
| "js_div _ NaN = NaN"
| "js_div (Num a) Infinity = Num 0"
| "js_div (Num a) NegInfinity = Num 0"
| "js_div Infinity (Num b) = inf_of_sign b"
| "js_div NegInfinity (Num b) = js_neg (inf_of_sign b)"
| "js_div Infinity _ = NaN"
| "js_div NegInfinity _ = NaN"

text \<open>\<^verbatim>\<open>a < b\<close> and \<^verbatim>\<open>a > b\<close>: false as soon as one side is \<^verbatim>\<open>NaN\<close>.\<close>

fun js_lt :: "number \<Rightarrow> number \<Rightarrow> bool" where
  "js_lt (Num a) (Num b) = (a < b)"
| "js_lt NaN _ = False"
| "js_lt _ NaN = False"
| "js_lt NegInfinity NegInfinity = False"
| "js_lt NegInfinity _ = True"
| "js_lt Infinity _ = False"
| "js_lt (Num a) Infinity = True"
| "js_lt (Num a) NegInfinity = False"

definition js_gt :: "number \<Rightarrow> number \<Rightarrow> bool" where
  "js_gt a b = js_lt b a"

text \<open>Truthiness of a number: everything but zero and \<^verbatim>\<open>NaN\<close>.\<close>

fun truthy :: "number \<Rightarrow> bool" where
  "truthy (Num r) = (r \<noteq> 0)"
| "truthy NaN = False"
| "truthy _ = True"

text \<open>\<^verbatim>\<open>a || b\<close> on numbers.\<close>

definition js_or :: "number \<Rightarrow> number \<Rightarrow> number" where
  "js_or a b = (if truthy a then a else b)"

text \<open>
  \<^verbatim>\<open>Math.max\<close> and \<^verbatim>\<open>Math.min\<close> of two arguments propagate \<^verbatim>\<open>NaN\<close>; of an
  argument list they start from \<^verbatim>\<open>-Infinity\<close> and \<^verbatim>\<open>Infinity\<close>.
\<close>

definition Math_max2 :: "number \<Rightarrow> number \<Rightarrow> number" where
  "Math_max2 a b = (if a = NaN \<or> b = NaN then NaN else if js_lt a b then b else a)"

definition Math_min2 :: "number \<Rightarrow> number \<Rightarrow> number" where
  "Math_min2 a b = (if a = NaN \<or> b = NaN then NaN else if js_lt b a then b else a)"

definition Math_max :: "number list \<Rightarrow> number" where
  "Math_max xs = foldl Math_max2 NegInfinity xs"

definition Math_min :: "number list \<Rightarrow> number" where
  "Math_min xs = foldl Math_min2 Infinity xs"

text \<open>\<^verbatim>\<open>Math.round\<close>: the nearest integer, a tie going up.\<close>

fun Math_round :: "number \<Rightarrow> number" where
  "Math_round (Num r) = Num (of_int \<lfloor>r + 1 / 2\<rfloor>)"
| "Math_round n = n"

text \<open>
  The real value of a finite number. The program has no such function: it serves only to
  state results about finite numbers in ordinary arithmetic.
\<close>

fun real_of :: "number \<Rightarrow> real" where
  "real_of (Num r) = r"
| "real_of _ = 0"

section \<open>Arrays\<close>

text \<open>
  \<^verbatim>\<open>xs.at(i)\<close>: a negative index counts from the end; out of range is
  \<^verbatim>\<open>undefined\<close>.
\<close>

definition array_at :: "'a list \<Rightarrow> int \<Rightarrow> 'a option" where
  "array_at xs i =
     (let len = int (length xs); k = (if 0 \<le> i then i else len + i)
      in if k < 0 \<or> len \<le> k then None else Some (xs ! nat k))"

text \<open>
  \<^verbatim>\<open>xs.slice(start)\<close>: a negative start counts from the end and stops at the first
  element; a start past the end gives the empty array.
\<close>

definition slice :: "'a list \<Rightarrow> int \<Rightarrow> 'a list" where
  "slice xs start =
     (let len = int (length xs);
          k = (if start < 0 then max (len + start) 0 else min start len)
      in drop (nat k) xs)"

text \<open>
  \<^verbatim>\<open>xs[i]\<close> with a number as the index: an element only where the number is an
  integer from \<open>0\<close> to \<open>length xs - 1\<close>, \<^verbatim>\<open>undefined\<close> everywhere else.
\<close>

fun index_by :: "'a list \<Rightarrow> number \<Rightarrow> 'a option" where
  "index_by xs (Num r) =
     (if r = of_int \<lfloor>r\<rfloor> \<and> 0 \<le> r \<and> r < of_nat (length xs)
      then Some (xs ! nat \<lfloor>r\<rfloor>) else None)"
| "index_by xs _ = None"

section \<open>Data model\<close>

text \<open>
  \<^verbatim>\<open>StockPoint\<close>, \<^verbatim>\<open>StockData\<close> and \<^verbatim>\<open>RangeKey\<close>. The field \<^verbatim>\<open>open\<close> is
  \<open>open'\<close> here, and a range key \<^verbatim>\<open>k\<close> is \<open>Rk\<close>; the entry \<^verbatim>\<open>'ALL'\<close> of the table is \<open>ALL'\<close>.
\<close>

record StockPoint =
  date :: string
  open' :: number
  high :: number
  low :: number
  close :: number
  volume :: number

record StockData =
  ticker :: string
  data :: "StockPoint list"

datatype RangeKey = R1D | R2D | R5D | R10D | R1M | R3M | R6M | R1Y | RMAX

datatype range_entry = Bars int | ALL'

fun RANGE_MAP :: "RangeKey \<Rightarrow> range_entry" where
  "RANGE_MAP R1D = Bars 1"
| "RANGE_MAP R2D = Bars 2"
| "RANGE_MAP R5D = Bars 5"
| "RANGE_MAP R10D = Bars 10"
| "RANGE_MAP R1M = Bars 22"
| "RANGE_MAP R3M = Bars 66"
| "RANGE_MAP R6M = ALL'"
| "RANGE_MAP R1Y = ALL'"
| "RANGE_MAP RMAX = ALL'"

section \<open>The window and the derived metrics of \<^verbatim>\<open>App\<close>\<close>

text \<open>
  \<^verbatim>\<open>App\<close> holds \<^verbatim>\<open>stockData\<close> (\<^verbatim>\<open>null\<close> until the series is loaded) and
  \<^verbatim>\<open>selectedRange\<close>; every other value of its body is derived from the two.
\<close>

definition filteredData :: "StockData option \<Rightarrow> RangeKey \<Rightarrow> StockPoint list" where
  "filteredData sd selRange =
     (case sd of
        None \<Rightarrow> []
      | Some s \<Rightarrow>
          (case RANGE_MAP selRange of
             ALL' \<Rightarrow> data s
           | Bars rng \<Rightarrow> slice (data s) (- rng)))"

text \<open>\<^verbatim>\<open>filteredData.at(-1) ?? stockData?.data.at(-1)\<close>\<close>

definition latestPoint :: "StockData option \<Rightarrow> RangeKey \<Rightarrow> StockPoint option" where
  "latestPoint sd selRange =
     (case array_at (filteredData sd selRange) (- 1) of
        Some p \<Rightarrow> Some p
      | None \<Rightarrow> (case sd of None \<Rightarrow> None | Some s \<Rightarrow> array_at (data s) (- 1)))"

text \<open>\<^verbatim>\<open>stockData?.data.at(-2)\<close>\<close>

definition previousPoint :: "StockData option \<Rightarrow> StockPoint option" where
  "previousPoint sd = (case sd of None \<Rightarrow> None | Some s \<Rightarrow> array_at (data s) (- 2))"

definition currentPrice :: "StockData option \<Rightarrow> RangeKey \<Rightarrow> number" where
  "currentPrice sd selRange =
     (case latestPoint sd selRange of Some p \<Rightarrow> close p | None \<Rightarrow> Num 0)"

definition previousClose :: "StockData option \<Rightarrow> RangeKey \<Rightarrow> number" where
  "previousClose sd selRange =
     (case previousPoint sd of Some p \<Rightarrow> close p | None \<Rightarrow> currentPrice sd selRange)"

definition priceChange :: "StockData option \<Rightarrow> RangeKey \<Rightarrow> number" where
  "priceChange sd selRange = js_sub (currentPrice sd selRange) (previousClose sd selRange)"

definition priceChangePercent :: "StockData option \<Rightarrow> RangeKey \<Rightarrow> number" where
  "priceChangePercent sd selRange =
     (if truthy (previousClose sd selRange)
      then js_mul (js_div (priceChange sd selRange) (previousClose sd selRange)) (Num 100)
      else Num 0)"

text \<open>
  \<^verbatim>\<open>averageVolume\<close> and \<^verbatim>\<open>slope\<close> are computed from \<^verbatim>\<open>filteredData\<close> alone; the
  window is their argument here.
\<close>

definition averageVolume :: "StockPoint list \<Rightarrow> number" where
  "averageVolume fd =
     (if length fd = 0 then Num 0
      else js_div (foldl (\<lambda>sum point. js_add sum (volume point)) (Num 0) fd)
             (Num (real (length fd))))"


text \<open>
  The label \<^verbatim>\<open>trend\<close> of \<^verbatim>\<open>Indicator\<close>. The literal \<^verbatim>\<open>0.2\<close> is the real
  \<open>2 / 10\<close>.
\<close>

definition trend :: "number \<Rightarrow> string" where
  "trend s =
     (if js_gt s (Num (2 / 10)) then ''Bullish''
      else if js_lt s (js_neg (Num (2 / 10))) then ''Bearish''
      else ''Neutral'')"

section \<open>\<^verbatim>\<open>StockChart\<close>: projection, hover and hit-testing\<close>

definition padding :: number where "padding = Num 16"
definition width :: number where "width = Num 640"
definition height :: number where "height = Num 280"

definition minPrice :: "StockPoint list \<Rightarrow> number" where
  "minPrice ps = Math_min (map low ps)"

definition maxPrice :: "StockPoint list \<Rightarrow> number" where
  "maxPrice ps = Math_max (map high ps)"

definition priceRange :: "StockPoint list \<Rightarrow> number" where
  "priceRange ps = js_or (js_sub (maxPrice ps) (minPrice ps)) (Num 1)"

text \<open>
  One element of \<^verbatim>\<open>chartPoints\<close>; its fields \<^verbatim>\<open>x\<close> and \<^verbatim>\<open>y\<close> are \<open>xpos\<close> and
  \<open>ypos\<close> here. In \<open>chartPoint\<close> every operation is exact, whereas the program
  rounds the result of every operation to a double; \<open>chartPoint_fl\<close> below is the same
  computation with that rounding.
\<close>

record ChartPoint =
  xpos :: number
  ypos :: number
  point :: StockPoint

definition chartPoint :: "StockPoint list \<Rightarrow> nat \<Rightarrow> StockPoint \<Rightarrow> ChartPoint" where
  "chartPoint ps index p =
     \<lparr> xpos = js_add padding
                (js_mul (js_div (Num (real index))
                           (Math_max2 (Num 1) (Num (real (length ps) - 1))))
                   (js_sub width (js_mul padding (Num 2)))),
       ypos = js_sub (js_sub height padding)
                (js_mul (js_div (js_sub (close p) (minPrice ps)) (priceRange ps))
                   (js_sub height (js_mul padding (Num 2)))),
       point = p \<rparr>"

definition chartPoints :: "StockPoint list \<Rightarrow> ChartPoint list" where
  "chartPoints ps = map (\<lambda>(index, p). chartPoint ps index p) (enumerate 0 ps)"

text \<open>
  The projection with rounding. The parameter \<open>fl\<close> maps the exact result of an
  arithmetic operation to the value that the operation returns; for the program it is
  rounding to the nearest double, and the exact projection above is the case where
  \<open>fl\<close> changes nothing. The result of each of \<^verbatim>\<open>+\<close>, \<^verbatim>\<open>-\<close>, \<^verbatim>\<open>*\<close> and
  \<^verbatim>\<open>/\<close> is rounded; \<^verbatim>\<open>Math.min\<close> and \<^verbatim>\<open>Math.max\<close> return one of their arguments,
  and the index and \<^verbatim>\<open>data.length - 1\<close> are whole numbers far below \<open>2^53\<close>, so these
  are exact. A finite result too large for a double (overflow) is not modelled.
\<close>

fun rounded :: "(real \<Rightarrow> real) \<Rightarrow> number \<Rightarrow> number" where
  "rounded fl (Num r) = Num (fl r)"
| "rounded fl n = n"

definition priceRange_fl :: "(real \<Rightarrow> real) \<Rightarrow> StockPoint list \<Rightarrow> number" where
  "priceRange_fl fl ps = js_or (rounded fl (js_sub (maxPrice ps) (minPrice ps))) (Num 1)"

definition chartPoint_fl ::
  "(real \<Rightarrow> real) \<Rightarrow> StockPoint list \<Rightarrow> nat \<Rightarrow> StockPoint \<Rightarrow> ChartPoint" where
  "chartPoint_fl fl ps index p =
     \<lparr> xpos = rounded fl (js_add padding
                (rounded fl (js_mul
                   (rounded fl (js_div (Num (real index))
                      (Math_max2 (Num 1) (Num (real (length ps) - 1)))))
                   (rounded fl (js_sub width (rounded fl (js_mul padding (Num 2)))))))),
       ypos = rounded fl (js_sub (rounded fl (js_sub height padding))
                (rounded fl (js_mul
                   (rounded fl (js_div (rounded fl (js_sub (close p) (minPrice ps)))
                      (priceRange_fl fl ps)))
                   (rounded fl (js_sub height (rounded fl (js_mul padding (Num 2)))))))),
       point = p \<rparr>"

definition chartPoints_fl :: "(real \<Rightarrow> real) \<Rightarrow> StockPoint list \<Rightarrow> ChartPoint list" where
  "chartPoints_fl fl ps = map (\<lambda>(index, p). chartPoint_fl fl ps index p) (enumerate 0 ps)"

text \<open>
  What the results below need of the rounding: it keeps the order (a greater exact result
  is not rounded to a smaller value), and it leaves the whole numbers up to \<open>1024\<close> as
  they are. Rounding to the nearest double does both. Two instances: no rounding at all,
  and the coarse rounding down to a multiple of one eighth.
\<close>

definition rounding :: "(real \<Rightarrow> real) \<Rightarrow> bool" where
  "rounding fl \<longleftrightarrow>
     (\<forall>a b. a \<le> b \<longrightarrow> fl a \<le> fl b) \<and> (\<forall>z::int. \<bar>z\<bar> \<le> 1024 \<longrightarrow> fl (of_int z) = of_int z)"

definition exact :: "real \<Rightarrow> real" where
  "exact r = r"

definition eighths :: "real \<Rightarrow> real" where
  "eighths r = of_int \<lfloor>r * 8\<rfloor> / 8"

text \<open>
  \<^verbatim>\<open>hoverIndex\<close> is a number or \<^verbatim>\<open>null\<close>; \<^verbatim>\<open>hoveredPoint\<close> is the chart point at
  that index, if there is one.
\<close>

definition hoveredPoint :: "number option \<Rightarrow> ChartPoint list \<Rightarrow> ChartPoint option" where
  "hoveredPoint hov cps = (case hov of None \<Rightarrow> None | Some h \<Rightarrow> index_by cps h)"

text \<open>
  \<^verbatim>\<open>tooltipConfig\<close>. The date label is made by the environment's date formatting, the
  parameter \<open>toLocaleDateString\<close>.
\<close>

record Tooltip =
  tooltipX :: number
  tooltipY :: number
  tooltipWidth :: number
  tooltipHeight :: number
  dateLabel :: string

definition tooltipConfig :: "(string \<Rightarrow> string) \<Rightarrow> ChartPoint option \<Rightarrow> Tooltip option" where
  "tooltipConfig toLocaleDateString hp =
     (case hp of
        None \<Rightarrow> None
      | Some h \<Rightarrow>
          (let tw = Num 180;
               th = Num 70;
               tx = js_sub (xpos h) (js_div tw (Num 2));
               tx' = Math_max2 padding (Math_min2 tx (js_sub (js_sub width padding) tw));
               ty = js_sub (js_sub (ypos h) th) (Num 12);
               ty' = (if js_lt ty padding then js_add (ypos h) (Num 12) else ty)
           in Some \<lparr> tooltipX = tx', tooltipY = ty', tooltipWidth = tw,
                       tooltipHeight = th,
                       dateLabel = toLocaleDateString (date (point h)) \<rparr>))"

text \<open>
  \<^verbatim>\<open>handleMouseMove\<close>, from the event's \<^verbatim>\<open>clientX\<close> and the left edge and width
  of the bounding rectangle, and \<^verbatim>\<open>handleMouseLeave\<close>. Both return the new value of
  \<^verbatim>\<open>hoverIndex\<close>; the last argument of the first is the old one.
\<close>

definition handleMouseMove ::
  "ChartPoint list \<Rightarrow> number \<Rightarrow> number \<Rightarrow> number \<Rightarrow> number option \<Rightarrow> number option" where
  "handleMouseMove cps clientX bounds_left bounds_width hov =
     (if length cps = 0 then hov
      else let scaleX = js_div width bounds_width;
               pointerX = js_mul (js_sub clientX bounds_left) scaleX;
               ratio = js_div (js_sub pointerX padding) (js_sub width (js_mul padding (Num 2)));
               clampedRatio = Math_min2 (Num 1) (Math_max2 (Num 0) ratio);
               index = Math_round (js_mul clampedRatio (Num (real (length cps) - 1)))
           in Some index)"

definition handleMouseLeave :: "number option" where
  "handleMouseLeave = None"

text \<open>
  What \<^verbatim>\<open>StockChart\<close> returns: the placeholder for an empty window, and otherwise the
  drawing, whose hover group (line, dot and tooltip) is there only when both
  \<^verbatim>\<open>hoveredPoint\<close> and \<^verbatim>\<open>tooltipConfig\<close> are.
\<close>

record HoverGroup =
  line_x :: number
  line_y1 :: number
  line_y2 :: number
  dot_cx :: number
  dot_cy :: number
  tooltip :: Tooltip
  tooltip_high :: number
  tooltip_low :: number

datatype Rendered = Placeholder | Svg "(number \<times> number) list" "HoverGroup option"

definition StockChart ::
  "(string \<Rightarrow> string) \<Rightarrow> StockPoint list \<Rightarrow> number option \<Rightarrow> Rendered" where
  "StockChart toLocaleDateString ps hov =
     (if length ps = 0 then Placeholder
      else let cps = chartPoints ps;
               points = map (\<lambda>c. (xpos c, ypos c)) cps;
               hp = hoveredPoint hov cps;
               tc = tooltipConfig toLocaleDateString hp
           in Svg points
                (case (hp, tc) of
                   (Some h, Some t) \<Rightarrow>
                     Some \<lparr> line_x = xpos h, line_y1 = padding,
                            line_y2 = js_sub height padding,
                            dot_cx = xpos h, dot_cy = ypos h, tooltip = t,
                            tooltip_high = high (point h), tooltip_low = low (point h) \<rparr>
                 | _ \<Rightarrow> None))"

section \<open>The interface as a state machine\<close>

text \<open>
  The state that \<^verbatim>\<open>useState\<close> keeps between renders: \<^verbatim>\<open>stockData\<close> and
  \<^verbatim>\<open>selectedRange\<close> of \<^verbatim>\<open>App\<close>, and \<^verbatim>\<open>hoverIndex\<close> of the one \<^verbatim>\<open>StockChart\<close>
  that \<^verbatim>\<open>App\<close> renders, always at the same place and without a key, so that the chart
  keeps its state whenever \<^verbatim>\<open>App\<close> renders again. The events are the handlers of the
  source: a click on a range button calls \<^verbatim>\<open>setSelectedRange\<close>, pointer movement over
  the drawing calls \<^verbatim>\<open>handleMouseMove\<close>, the pointer leaving it calls
  \<^verbatim>\<open>handleMouseLeave\<close>. For an empty window there is no drawing, hence no pointer
  event.

  \<^verbatim>\<open>App\<close> calls \<^verbatim>\<open>setStockData\<close> in one place, the effect that runs once after the
  first render, so the series arrives once, in a state that has none. Until then the
  window is empty and \<^verbatim>\<open>StockChart\<close> returns the placeholder before it reaches
  \<^verbatim>\<open>useState\<close>: the chart has no state of its own. With the series there,
  \<^verbatim>\<open>useState(null)\<close> runs for the first time and \<^verbatim>\<open>hoverIndex\<close> is \<^verbatim>\<open>null\<close>. In a
  state that has its series the event does not occur, and the step leaves the state as it
  is. The first state is \<open>initialUI\<close>.
\<close>

record UI =
  stockData :: "StockData option"
  selectedRange :: RangeKey
  hoverIndex :: "number option"

datatype Event =
  SetStockData StockData | SelectRange RangeKey | MouseMove number number number | MouseLeave

definition initialUI :: UI where
  "initialUI = \<lparr> stockData = None, selectedRange = R6M, hoverIndex = None \<rparr>"

fun step :: "UI \<Rightarrow> Event \<Rightarrow> UI" where
  "step s (SetStockData sd) =
     (if stockData s = None then s\<lparr>stockData := Some sd, hoverIndex := None\<rparr> else s)"
| "step s (SelectRange r) = s\<lparr>selectedRange := r\<rparr>"
| "step s (MouseMove clientX bounds_left bounds_width) =
     (let fd = filteredData (stockData s) (selectedRange s)
      in if length fd = 0 then s
         else s\<lparr>hoverIndex :=
                  handleMouseMove (chartPoints fd) clientX bounds_left bounds_width
                    (hoverIndex s)\<rparr>)"
| "step s MouseLeave =
     (let fd = filteredData (stockData s) (selectedRange s)
      in if length fd = 0 then s else s\<lparr>hoverIndex := handleMouseLeave\<rparr>)"

definition run :: "UI \<Rightarrow> Event list \<Rightarrow> UI" where
  "run s evs = foldl step s evs"

text \<open>What \<^verbatim>\<open>App\<close> passes to the chart in a state, and what the chart returns.\<close>

definition view :: "(string \<Rightarrow> string) \<Rightarrow> UI \<Rightarrow> Rendered" where
  "view toLocaleDateString s =
     StockChart toLocaleDateString (filteredData (stockData s) (selectedRange s))
       (hoverIndex s)"

section \<open>Example data\<close>

text \<open>A bar with finite fields, and two small series, for concrete evaluations.\<close>

definition bar :: "string \<Rightarrow> real \<Rightarrow> real \<Rightarrow> real \<Rightarrow> real \<Rightarrow> real \<Rightarrow> StockPoint" where
  "bar d o' h l c v =
     \<lparr> date = d, open' = Num o', high = Num h, low = Num l, close = Num c, volume = Num v \<rparr>"

definition series3 :: StockData where
  "series3 =
     \<lparr> ticker = ''ONE'',
       data = [bar ''2024-01-02'' 9 11 8 10 100,
               bar ''2024-01-03'' 10 13 10 12 200,
               bar ''2024-01-04'' 12 12 8 9 300] \<rparr>"

definition series0 :: StockData where
  "series0 = \<lparr> ticker = ''ONE'', data = [] \<rparr>"

definition series1 :: StockData where
  "series1 = \<lparr> ticker = ''ONE'', data = [bar ''2024-01-02'' 9 11 8 10 100] \<rparr>"

definition rising3 :: "StockPoint list" where
  "rising3 = [bar ''2024-01-02'' 9 11 8 10 100, bar ''2024-01-03'' 10 12 10 11 200,
              bar ''2024-01-04'' 11 13 11 12 300]"

definition flat2 :: "StockPoint list" where
  "flat2 = [bar ''2024-01-02'' 7 7 7 7 100, bar ''2024-01-03'' 7 7 7 7 200]"

definition inverted2 :: "StockPoint list" where
  "inverted2 = [bar ''2024-01-02'' 1 5 10 1 100, bar ''2024-01-03'' 2 5 10 2 100]"

definition near2 :: "StockPoint list" where
  "near2 = [bar ''2024-01-02'' 4 8 0 4 100, bar ''2024-01-03'' 4 8 0 (401 / 100) 100]"

text \<open>A state of the interface: the series loaded, the initial range, no hover.\<close>

definition ui3 :: UI where
  "ui3 = \<lparr> stockData = Some series3, selectedRange = R6M, hoverIndex = None \<rparr>"

section \<open>Window selection\<close>

text \<open>Helper facts about \<^const>\<open>slice\<close>.\<close>

lemma slice_neg_drop:
  "0 < n \<Longrightarrow> slice xs (- n) = drop (length xs - nat n) xs"
proof -
  assume n: "0 < n"
  have "nat (max (int (length xs) - n) 0) = length xs - nat n"
    using n by (simp add: max_def nat_diff_distrib')
  with n show ?thesis
    by (simp add: slice_def Let_def)
qed

lemma RANGE_MAP_pos: "RANGE_MAP key = Bars n \<Longrightarrow> 0 < n"
  by (cases key) auto

lemma filteredData_Bars:
  "RANGE_MAP key = Bars n \<Longrightarrow>
   filteredData (Some sd) key = drop (length (data sd) - nat n) (data sd)"
  by (simp add: filteredData_def slice_neg_drop RANGE_MAP_pos)

lemma filteredData_ALL:
  "RANGE_MAP key = ALL' \<Longrightarrow> filteredData (Some sd) key = data sd"
  by (simp add: filteredData_def)

text \<open>
  C5. For every loaded series of length \<open>L\<close> and every range key: a key that maps to a
  bar count \<open>n\<close> selects the last \<open>min L n\<close> bars, in order (the series with its first
  \<open>L - min L n\<close> bars dropped), so the window has length \<open>min L n\<close>; the keys that map to
  the whole series are exactly 6M, 1Y and MAX, and for them the window is the series
  unchanged; and the window of an empty series is empty for every key.
\<close>

theorem window_selection:
  "(\<forall>n. RANGE_MAP key = Bars n \<longrightarrow>
      filteredData (Some sd) key
        = drop (length (data sd) - min (length (data sd)) (nat n)) (data sd)
      \<and> length (filteredData (Some sd) key) = min (length (data sd)) (nat n))
   \<and> (RANGE_MAP key = ALL' \<longleftrightarrow> key \<in> {R6M, R1Y, RMAX})
   \<and> (RANGE_MAP key = ALL' \<longrightarrow> filteredData (Some sd) key = data sd)
   \<and> (length (data sd) = 0 \<longrightarrow> filteredData (Some sd) key = [])"
proof -
  have a: "filteredData (Some sd) key
             = drop (length (data sd) - min (length (data sd)) (nat n)) (data sd)
           \<and> length (filteredData (Some sd) key) = min (length (data sd)) (nat n)"
    if h: "RANGE_MAP key = Bars n" for n
  proof -
    have "length (data sd) - min (length (data sd)) (nat n) = length (data sd) - nat n"
      by (simp add: min_def)
    then show ?thesis
      by (auto simp: filteredData_Bars[OF h] min_def)
  qed
  have b: "RANGE_MAP key = ALL' \<longleftrightarrow> key \<in> {R6M, R1Y, RMAX}"
    by (cases key) auto
  have c: "RANGE_MAP key = ALL' \<longrightarrow> filteredData (Some sd) key = data sd"
    by (simp add: filteredData_ALL)
  have d: "length (data sd) = 0 \<longrightarrow> filteredData (Some sd) key = []"
    by (cases "RANGE_MAP key") (simp_all add: filteredData_Bars filteredData_ALL)
  from a b c d show ?thesis by blast
qed

theorem window_selection_witness:
  "filteredData (Some series3) R2D
     = [bar ''2024-01-03'' 10 13 10 12 200, bar ''2024-01-04'' 12 12 8 9 300]
   \<and> length (filteredData (Some series3) R3M) = 3
   \<and> filteredData (Some series3) R1Y = data series3
   \<and> filteredData (Some series0) R5D = []"
  using window_selection [of R2D series3] window_selection [of R3M series3]
    window_selection [of R1Y series3] window_selection [of R5D series0]
  by (simp add: series3_def series0_def)

section \<open>Sentiment\<close>

text \<open>
  C7. The label is a function of the slope alone. A finite slope above \<open>0.2\<close> is
  Bullish, one below \<open>-0.2\<close> is Bearish and every other finite slope is Neutral; the
  comparisons are strict, so \<open>0.2\<close> and \<open>-0.2\<close> themselves are Neutral. The special
  values follow the same two comparisons: \<^verbatim>\<open>Infinity\<close> is Bullish, \<^verbatim>\<open>-Infinity\<close>
  Bearish and \<^verbatim>\<open>NaN\<close> Neutral.
\<close>

theorem sentiment_classification:
  "(\<forall>r. trend (Num r) =
      (if 2 / 10 < r then ''Bullish'' else if r < - (2 / 10) then ''Bearish''
       else ''Neutral''))
   \<and> trend (Num (2 / 10)) = ''Neutral'' \<and> trend (Num (- (2 / 10))) = ''Neutral''
   \<and> trend Infinity = ''Bullish'' \<and> trend NegInfinity = ''Bearish''
   \<and> trend NaN = ''Neutral''"
  by (simp add: trend_def js_gt_def)

section \<open>Helper facts on numbers and arrays\<close>

lemma js_sub_Num [simp]: "js_sub (Num a) (Num b) = Num (a - b)"
  by (simp add: js_sub_def)

lemma Math_max2_Num [simp]: "Math_max2 (Num a) (Num b) = Num (max a b)"
  by (simp add: Math_max2_def max_def)

lemma Math_min2_Num [simp]: "Math_min2 (Num a) (Num b) = Num (min a b)"
  by (simp add: Math_min2_def min_def)

lemma is_finite_iff: "is_finite n \<longleftrightarrow> (\<exists>r. n = Num r)"
  by (cases n) auto

lemma array_at_last: "array_at xs (- 1) = (if xs = [] then None else Some (last xs))"
proof (cases "xs = []")
  case True
  then show ?thesis by (simp add: array_at_def)
next
  case False
  then have "nat (int (length xs) - 1) = length xs - 1" by simp
  with False show ?thesis
    by (simp add: array_at_def Let_def last_conv_nth)
qed

lemma array_at_prev:
  "array_at xs (- 2) = (if 2 \<le> length xs then Some (xs ! (length xs - 2)) else None)"
proof (cases "2 \<le> length xs")
  case True
  then have "nat (int (length xs) - 2) = length xs - 2" by simp
  with True show ?thesis
    by (simp add: array_at_def Let_def)
next
  case False
  then show ?thesis by (simp add: array_at_def Let_def)
qed

section \<open>Latest and previous close\<close>

lemma latestPoint_eq:
  "latestPoint sd key =
     (if filteredData sd key \<noteq> [] then Some (last (filteredData sd key))
      else case sd of None \<Rightarrow> None
           | Some s \<Rightarrow> if data s \<noteq> [] then Some (last (data s)) else None)"
  by (simp add: latestPoint_def array_at_last split: option.splits)

lemma previousPoint_eq:
  "previousPoint sd =
     (case sd of None \<Rightarrow> None
      | Some s \<Rightarrow> if 2 \<le> length (data s) then Some (data s ! (length (data s) - 2)) else None)"
  by (simp add: previousPoint_def array_at_prev split: option.splits)

text \<open>
  C1. The latest bar is the last bar of the window when the window is not empty,
  otherwise the last bar of the series, otherwise there is none, and then the price is
  \<open>0\<close>. The previous bar is the last but one of the whole series, whatever the range
  key. With finite closes \<open>a\<close> of the latest and \<open>b\<close> of the previous bar, the change is
  \<open>a - b\<close> and the percentage is \<open>(a - b) / b * 100\<close> for \<open>b \<noteq> 0\<close> and \<open>0\<close> for
  \<open>b = 0\<close>. With no previous bar (and a finite price) both are \<open>0\<close>.
\<close>

theorem close_delta:
  "latestPoint sd key =
     (if filteredData sd key \<noteq> [] then Some (last (filteredData sd key))
      else case sd of None \<Rightarrow> None
           | Some s \<Rightarrow> if data s \<noteq> [] then Some (last (data s)) else None)
   \<and> (latestPoint sd key = None \<longrightarrow> currentPrice sd key = Num 0)
   \<and> previousPoint sd =
       (case sd of None \<Rightarrow> None
        | Some s \<Rightarrow> if 2 \<le> length (data s) then Some (data s ! (length (data s) - 2)) else None)
   \<and> (\<forall>lp pp a b.
         latestPoint sd key = Some lp \<and> previousPoint sd = Some pp
         \<and> close lp = Num a \<and> close pp = Num b \<longrightarrow>
         priceChange sd key = Num (a - b)
         \<and> priceChangePercent sd key = (if b \<noteq> 0 then Num ((a - b) / b * 100) else Num 0))
   \<and> (previousPoint sd = None \<and> is_finite (currentPrice sd key) \<longrightarrow>
         priceChange sd key = Num 0 \<and> priceChangePercent sd key = Num 0)"
proof -
  have c: "latestPoint sd key = None \<longrightarrow> currentPrice sd key = Num 0"
    by (simp add: currentPrice_def)
  have d: "priceChange sd key = Num (a - b)
         \<and> priceChangePercent sd key = (if b \<noteq> 0 then Num ((a - b) / b * 100) else Num 0)"
    if "latestPoint sd key = Some lp \<and> previousPoint sd = Some pp
         \<and> close lp = Num a \<and> close pp = Num b" for lp pp a b
    using that
    by (simp add: priceChange_def priceChangePercent_def previousClose_def currentPrice_def)
  have e: "priceChange sd key = Num 0 \<and> priceChangePercent sd key = Num 0"
    if "previousPoint sd = None \<and> is_finite (currentPrice sd key)"
  proof -
    from that obtain c where "currentPrice sd key = Num c" by (auto simp: is_finite_iff)
    with that show ?thesis
      by (simp add: priceChange_def priceChangePercent_def previousClose_def)
  qed
  from latestPoint_eq[of sd key] c previousPoint_eq[of sd] d e show ?thesis by blast
qed

theorem close_delta_witness:
  "latestPoint (Some series3) R1D = Some (bar ''2024-01-04'' 12 12 8 9 300)
   \<and> previousPoint (Some series3) = Some (bar ''2024-01-03'' 10 13 10 12 200)
   \<and> priceChange (Some series3) R1D = Num (- 3)
   \<and> priceChangePercent (Some series3) R1D = Num (- 25)
   \<and> priceChange (Some series1) R5D = Num 0
   \<and> priceChangePercent (Some series1) R5D = Num 0
   \<and> currentPrice None R6M = Num 0"
proof -
  note t3 = close_delta [of "Some series3" R1D]
  note t1 = close_delta [of "Some series1" R5D]
  note t0 = close_delta [of None R6M]
  have lp: "latestPoint (Some series3) R1D = Some (bar ''2024-01-04'' 12 12 8 9 300)"
    using t3 by (simp add: series3_def filteredData_def slice_def)
  have pp: "previousPoint (Some series3) = Some (bar ''2024-01-03'' 10 13 10 12 200)"
    using t3 by (simp add: series3_def)
  have "\<forall>lp pp a b.
         latestPoint (Some series3) R1D = Some lp \<and> previousPoint (Some series3) = Some pp
         \<and> close lp = Num a \<and> close pp = Num b \<longrightarrow>
         priceChange (Some series3) R1D = Num (a - b)
         \<and> priceChangePercent (Some series3) R1D
             = (if b \<noteq> 0 then Num ((a - b) / b * 100) else Num 0)"
    using t3 by blast
  from this[rule_format, of "bar ''2024-01-04'' 12 12 8 9 300"
      "bar ''2024-01-03'' 10 13 10 12 200" 9 12] lp pp
  have ch: "priceChange (Some series3) R1D = Num (- 3)
            \<and> priceChangePercent (Some series3) R1D = Num (- 25)"
    by (simp add: bar_def)
  have p1: "previousPoint (Some series1) = None"
    using t1 by (simp add: series1_def)
  have "latestPoint (Some series1) R5D = Some (bar ''2024-01-02'' 9 11 8 10 100)"
    using t1 by (simp add: series1_def filteredData_def slice_def)
  then have "is_finite (currentPrice (Some series1) R5D)"
    by (simp add: currentPrice_def bar_def)
  with p1 t1 have ch1: "priceChange (Some series1) R5D = Num 0
                        \<and> priceChangePercent (Some series1) R5D = Num 0"
    by blast
  have "latestPoint None R6M = None"
    using t0 by (simp add: filteredData_def)
  with t0 have c0: "currentPrice None R6M = Num 0" by blast
  from lp pp ch ch1 c0 show ?thesis by blast
qed

section \<open>Average volume\<close>

lemma foldl_volume:
  "\<forall>p\<in>set w. is_finite (volume p) \<Longrightarrow>
   foldl (\<lambda>sum point. js_add sum (volume point)) (Num a) w
     = Num (a + sum_list (map (\<lambda>p. real_of (volume p)) w))"
proof (induction w arbitrary: a)
  case Nil
  then show ?case by simp
next
  case (Cons p w)
  from Cons.prems obtain v where v: "volume p = Num v"
    by (auto simp: is_finite_iff)
  from Cons.prems have "\<forall>q\<in>set w. is_finite (volume q)" by simp
  from Cons.IH[OF this, of "a + v"] v show ?case
    by (simp add: add.assoc)
qed

text \<open>
  C8. The average volume of the empty window is \<open>0\<close>; that of a non-empty window with
  finite volumes is the sum of the volumes of its bars divided by their number; it is
  computed from the window alone, so for a key that maps to \<open>n\<close> bars the bars of the
  series older than the last \<open>n\<close> do not enter it; and for volumes \<open>100, 200, 300\<close> it
  is \<open>200\<close>.
\<close>

theorem average_volume:
  "averageVolume [] = Num 0
   \<and> (w \<noteq> [] \<and> (\<forall>p\<in>set w. is_finite (volume p)) \<longrightarrow>
        averageVolume w = Num (sum_list (map (\<lambda>p. real_of (volume p)) w) / real (length w)))
   \<and> (RANGE_MAP key = Bars n \<and> length w = nat n \<longrightarrow>
        averageVolume (filteredData (Some \<lparr>ticker = t, data = older @ w\<rparr>) key) = averageVolume w)
   \<and> (volume p1 = Num 100 \<and> volume p2 = Num 200 \<and> volume p3 = Num 300 \<longrightarrow>
        averageVolume [p1, p2, p3] = Num 200)"
proof -
  have a: "averageVolume [] = Num 0" by (simp add: averageVolume_def)
  have b: "averageVolume w = Num (sum_list (map (\<lambda>p. real_of (volume p)) w) / real (length w))"
    if "w \<noteq> []" "\<forall>p\<in>set w. is_finite (volume p)"
    using that by (simp add: averageVolume_def foldl_volume)
  have c: "averageVolume (filteredData (Some \<lparr>ticker = t, data = older @ w\<rparr>) key) = averageVolume w"
    if "RANGE_MAP key = Bars n" "length w = nat n"
    using that by (simp add: filteredData_Bars)
  have d: "averageVolume [p1, p2, p3] = Num 200"
    if "volume p1 = Num 100 \<and> volume p2 = Num 200 \<and> volume p3 = Num 300"
    using that by (simp add: averageVolume_def)
  from a b c d show ?thesis by blast
qed

theorem average_volume_witness:
  "averageVolume (data series3) = Num 200
   \<and> averageVolume (filteredData (Some series3) R2D) = Num 250
   \<and> averageVolume (filteredData (Some series3) R1D) = Num 300"
  using average_volume [of "data series3" R1D 1 "ticker series3" "butlast (data series3)"
       "data series3 ! 0" "data series3 ! 1" "data series3 ! 2"]
     average_volume [of "drop 1 (data series3)" R2D 2 "ticker series3" "take 1 (data series3)"]
     average_volume [of "[last (data series3)]" R1D 1 "ticker series3" "butlast (data series3)"]
  by (simp add: series3_def bar_def)

section \<open>Momentum slope\<close>



section \<open>Helper facts on the projection\<close>

lemma length_chartPoints [simp]: "length (chartPoints ps) = length ps"
  by (simp add: chartPoints_def)

lemma chartPoints_Nil_iff [simp]: "chartPoints ps = [] \<longleftrightarrow> ps = []"
  using length_chartPoints[of ps] by (simp only: length_0_conv[symmetric])

lemma chartPoints_nth:
  "i < length ps \<Longrightarrow> chartPoints ps ! i = chartPoint ps i (ps ! i)"
  by (simp add: chartPoints_def nth_enumerate_eq)

lemma xpos_chartPoint:
  "xpos (chartPoint ps i p) = Num (16 + real i / max 1 (real (length ps) - 1) * 608)"
proof -
  have "max 1 (real (length ps) - 1) \<noteq> 0" by (simp add: max_def)
  then show ?thesis
    by (simp add: chartPoint_def padding_def width_def)
qed

lemma handleMouseMove_Num:
  assumes "cps \<noteq> []" and "w \<noteq> 0"
  shows "handleMouseMove cps (Num cx) (Num l) (Num w) hov
           = Some (Num (of_int \<lfloor>min 1 (max 0 (((cx - l) * (640 / w) - 16) / 608))
                                   * (real (length cps) - 1) + 1 / 2\<rfloor>))"
  using assms by (simp add: handleMouseMove_def Let_def padding_def width_def)

lemma round_clamped:
  fixes c :: real
  assumes "0 \<le> c" "c \<le> 1" "0 < n"
  shows "0 \<le> \<lfloor>c * (real n - 1) + 1 / 2\<rfloor> \<and> nat \<lfloor>c * (real n - 1) + 1 / 2\<rfloor> < n"
proof -
  have n1: "0 \<le> real n - 1" using assms by simp
  have lo: "0 \<le> c * (real n - 1)" using assms n1 by simp
  have hi: "c * (real n - 1) \<le> real n - 1"
    using assms n1 by (simp add: mult_left_le_one_le)
  from lo have a: "0 \<le> \<lfloor>c * (real n - 1) + 1 / 2\<rfloor>" by simp
  from hi have "c * (real n - 1) + 1 / 2 < real n" by simp
  then have b: "\<lfloor>c * (real n - 1) + 1 / 2\<rfloor> < int n"
    by (simp add: floor_less_iff)
  from a b have "nat \<lfloor>c * (real n - 1) + 1 / 2\<rfloor> < n"
    by (simp only: nat_less_iff)
  with a show ?thesis by (rule_tac conjI)
qed

lemma foldl_Math_min2:
  "\<forall>x\<in>set xs. is_finite x \<Longrightarrow>
   \<exists>m. foldl Math_min2 (Num a) xs = Num m \<and> m \<le> a \<and> (\<forall>x\<in>set xs. m \<le> real_of x)
       \<and> (m = a \<or> Num m \<in> set xs)"
proof (induction xs arbitrary: a)
  case Nil
  then show ?case by simp
next
  case (Cons x xs)
  from Cons.prems obtain b where b: "x = Num b" by (auto simp: is_finite_iff)
  from Cons.prems have "\<forall>y\<in>set xs. is_finite y" by simp
  from Cons.IH[OF this, of "min a b"] obtain m where
    m: "foldl Math_min2 (Num (min a b)) xs = Num m" "m \<le> min a b"
       "\<forall>y\<in>set xs. m \<le> real_of y" "m = min a b \<or> Num m \<in> set xs"
    by blast
  have "foldl Math_min2 (Num a) (x # xs) = Num m"
    using m(1) b by simp
  moreover have "m \<le> a" using m(2) by simp
  moreover have "\<forall>y\<in>set (x # xs). m \<le> real_of y" using m(2,3) b by simp
  moreover have "m = a \<or> Num m \<in> set (x # xs)" using m(4) b by (auto simp: min_def split: if_splits)
  ultimately show ?case by blast
qed

lemma foldl_Math_max2:
  "\<forall>x\<in>set xs. is_finite x \<Longrightarrow>
   \<exists>m. foldl Math_max2 (Num a) xs = Num m \<and> a \<le> m \<and> (\<forall>x\<in>set xs. real_of x \<le> m)
       \<and> (m = a \<or> Num m \<in> set xs)"
proof (induction xs arbitrary: a)
  case Nil
  then show ?case by simp
next
  case (Cons x xs)
  from Cons.prems obtain b where b: "x = Num b" by (auto simp: is_finite_iff)
  from Cons.prems have "\<forall>y\<in>set xs. is_finite y" by simp
  from Cons.IH[OF this, of "max a b"] obtain m where
    m: "foldl Math_max2 (Num (max a b)) xs = Num m" "max a b \<le> m"
       "\<forall>y\<in>set xs. real_of y \<le> m" "m = max a b \<or> Num m \<in> set xs"
    by blast
  have "foldl Math_max2 (Num a) (x # xs) = Num m"
    using m(1) b by simp
  moreover have "a \<le> m" using m(2) by simp
  moreover have "\<forall>y\<in>set (x # xs). real_of y \<le> m" using m(2,3) b by simp
  moreover have "m = a \<or> Num m \<in> set (x # xs)" using m(4) b by (auto simp: max_def split: if_splits)
  ultimately show ?case by blast
qed

lemma Math_min_finite:
  assumes "xs \<noteq> []" and "\<forall>x\<in>set xs. is_finite x"
  shows "\<exists>m. Math_min xs = Num m \<and> (\<forall>x\<in>set xs. m \<le> real_of x) \<and> Num m \<in> set xs"
proof -
  from assms obtain b ys where xs: "xs = Num b # ys"
    by (cases xs) (auto simp: is_finite_iff)
  with assms have "\<forall>y\<in>set ys. is_finite y" by simp
  from foldl_Math_min2[OF this, of b] xs show ?thesis
    by (auto simp: Math_min_def Math_min2_def)
qed

lemma Math_max_finite:
  assumes "xs \<noteq> []" and "\<forall>x\<in>set xs. is_finite x"
  shows "\<exists>m. Math_max xs = Num m \<and> (\<forall>x\<in>set xs. real_of x \<le> m) \<and> Num m \<in> set xs"
proof -
  from assms obtain b ys where xs: "xs = Num b # ys"
    by (cases xs) (auto simp: is_finite_iff)
  with assms have "\<forall>y\<in>set ys. is_finite y" by simp
  from foldl_Math_max2[OF this, of b] xs show ?thesis
    by (auto simp: Math_max_def Math_max2_def)
qed

lemma priceRange_Num:
  "minPrice ps = Num m \<Longrightarrow> maxPrice ps = Num M \<Longrightarrow>
   priceRange ps = Num (if M - m \<noteq> 0 then M - m else 1)"
  by (simp add: priceRange_def js_or_def)

lemma ypos_chartPoint:
  "minPrice ps = Num m \<Longrightarrow> priceRange ps = Num r \<Longrightarrow> r \<noteq> 0 \<Longrightarrow> close p = Num c \<Longrightarrow>
   ypos (chartPoint ps i p) = Num (264 - (c - m) / r * 248)"
  by (simp add: chartPoint_def padding_def height_def)

lemma rounded_exact [simp]: "rounded exact n = n"
  by (cases n) (simp_all add: exact_def)

lemma chartPoints_fl_exact: "chartPoints_fl exact ps = chartPoints ps"
  by (simp add: chartPoints_fl_def chartPoints_def chartPoint_fl_def chartPoint_def
      priceRange_fl_def priceRange_def)

lemma rounding_exact: "rounding exact"
  by (simp add: rounding_def exact_def)

lemma rounding_eighths: "rounding eighths"
proof -
  have "eighths a \<le> eighths b" if "a \<le> b" for a b
  proof -
    from that have "\<lfloor>a * 8\<rfloor> \<le> \<lfloor>b * 8\<rfloor>" by (intro floor_mono) simp
    then show ?thesis by (simp add: eighths_def divide_right_mono)
  qed
  moreover have "eighths (of_int z) = of_int z" for z :: int
  proof -
    have "real_of_int z * 8 = of_int (z * 8)" by simp
    then have "\<lfloor>real_of_int z * 8\<rfloor> = z * 8" by (simp only: floor_of_int)
    then show ?thesis by (simp add: eighths_def)
  qed
  ultimately show ?thesis by (simp add: rounding_def)
qed

lemma rounding_mono: "rounding fl \<Longrightarrow> a \<le> b \<Longrightarrow> fl a \<le> fl b"
  by (simp add: rounding_def)

lemma rounding_int: "rounding fl \<Longrightarrow> \<bar>z\<bar> \<le> 1024 \<Longrightarrow> fl (of_int z) = of_int z"
  by (simp add: rounding_def)

lemma rounding_consts:
  assumes "rounding fl"
  shows "fl 0 = 0" "fl 1 = 1" "fl 16 = 16" "fl 32 = 32" "fl 248 = 248" "fl 264 = 264"
    "fl 608 = 608" "fl 624 = 624"
  using rounding_int[OF assms, of 0] rounding_int[OF assms, of 1]
    rounding_int[OF assms, of 16] rounding_int[OF assms, of 32]
    rounding_int[OF assms, of 248] rounding_int[OF assms, of 264]
    rounding_int[OF assms, of 608] rounding_int[OF assms, of 624]
  by simp_all

lemma length_chartPoints_fl [simp]: "length (chartPoints_fl fl ps) = length ps"
  by (simp add: chartPoints_fl_def)

lemma chartPoints_fl_nth:
  "i < length ps \<Longrightarrow> chartPoints_fl fl ps ! i = chartPoint_fl fl ps i (ps ! i)"
  by (simp add: chartPoints_fl_def nth_enumerate_eq)

lemma xpos_chartPoint_fl:
  assumes "rounding fl"
  shows "xpos (chartPoint_fl fl ps i p)
           = Num (fl (16 + fl (fl (real i / max 1 (real (length ps) - 1)) * 608)))"
proof -
  have "max 1 (real (length ps) - 1) \<noteq> 0" by (simp add: max_def)
  then show ?thesis
    by (simp add: chartPoint_fl_def padding_def width_def rounding_consts[OF assms])
qed

lemma ypos_chartPoint_fl:
  assumes "rounding fl" and "minPrice ps = Num m" and "priceRange_fl fl ps = Num r"
    and "r \<noteq> 0" and "close p = Num c"
  shows "ypos (chartPoint_fl fl ps i p) = Num (fl (264 - fl (fl (fl (c - m) / r) * 248)))"
  using assms(2-5)
  by (simp add: chartPoint_fl_def padding_def height_def rounding_consts[OF assms(1)])

lemma min_max_prices:
  assumes ne: "ps \<noteq> []"
    and fin: "\<forall>p\<in>set ps. \<exists>l h. low p = Num l \<and> high p = Num h \<and> l \<le> h"
  shows "\<exists>m M. minPrice ps = Num m \<and> maxPrice ps = Num M \<and> m \<le> M"
proof -
  from fin have "\<forall>x\<in>set (map low ps). is_finite x" by auto
  with ne Math_min_finite[of "map low ps"] obtain m where
    m: "minPrice ps = Num m" "\<forall>x\<in>set (map low ps). m \<le> real_of x"
    by (auto simp: minPrice_def)
  from fin have "\<forall>x\<in>set (map high ps). is_finite x" by auto
  with ne Math_max_finite[of "map high ps"] obtain M where
    M: "maxPrice ps = Num M" "\<forall>x\<in>set (map high ps). real_of x \<le> M"
    by (auto simp: maxPrice_def)
  from ne fin obtain l h where lh: "low (hd ps) = Num l" "high (hd ps) = Num h" "l \<le> h"
    by (cases ps) auto
  from ne m(2) lh have "m \<le> l" by (cases ps) auto
  moreover from ne M(2) lh have "h \<le> M" by (cases ps) auto
  ultimately have "m \<le> M" using lh(3) by linarith
  with m(1) M(1) show ?thesis by blast
qed

lemma priceRange_fl_pos:
  assumes "rounding fl" and "minPrice ps = Num m" and "maxPrice ps = Num M" and "m \<le> M"
  shows "\<exists>r. priceRange_fl fl ps = Num r \<and> 0 < r"
proof -
  from assms(4) have "fl 0 \<le> fl (M - m)" by (intro rounding_mono[OF assms(1)]) simp
  then have "0 \<le> fl (M - m)" by (simp add: rounding_consts[OF assms(1)])
  then have "0 < (if fl (M - m) \<noteq> 0 then fl (M - m) else 1)" by simp
  moreover have "priceRange_fl fl ps = Num (if fl (M - m) \<noteq> 0 then fl (M - m) else 1)"
    using assms(2,3) by (simp add: priceRange_fl_def js_or_def)
  ultimately show ?thesis by blast
qed

lemma xpos_fl_mono:
  assumes r: "rounding fl" and ij: "i \<le> j"
  shows "fl (16 + fl (fl (real i / max 1 (real n - 1)) * 608))
           \<le> fl (16 + fl (fl (real j / max 1 (real n - 1)) * 608))"
proof -
  have d: "0 < max 1 (real n - 1)" by simp
  from ij have "real i / max 1 (real n - 1) \<le> real j / max 1 (real n - 1)"
    using d by (intro divide_right_mono) simp_all
  then have "fl (real i / max 1 (real n - 1)) \<le> fl (real j / max 1 (real n - 1))"
    by (rule rounding_mono[OF r])
  then have "fl (real i / max 1 (real n - 1)) * 608 \<le> fl (real j / max 1 (real n - 1)) * 608"
    by simp
  then have "fl (fl (real i / max 1 (real n - 1)) * 608)
               \<le> fl (fl (real j / max 1 (real n - 1)) * 608)"
    by (rule rounding_mono[OF r])
  then have "16 + fl (fl (real i / max 1 (real n - 1)) * 608)
               \<le> 16 + fl (fl (real j / max 1 (real n - 1)) * 608)"
    by simp
  then show ?thesis by (rule rounding_mono[OF r])
qed

lemma ypos_fl_antimono:
  assumes r: "rounding fl" and cd: "c \<le> d" and pos: "0 < q"
  shows "fl (264 - fl (fl (fl (d - m) / q) * 248)) \<le> fl (264 - fl (fl (fl (c - m) / q) * 248))"
proof -
  from cd have "fl (c - m) \<le> fl (d - m)" by (intro rounding_mono[OF r]) simp
  then have "fl (c - m) / q \<le> fl (d - m) / q"
    using pos by (intro divide_right_mono) simp_all
  then have "fl (fl (c - m) / q) \<le> fl (fl (d - m) / q)" by (rule rounding_mono[OF r])
  then have "fl (fl (c - m) / q) * 248 \<le> fl (fl (d - m) / q) * 248" by simp
  then have "fl (fl (fl (c - m) / q) * 248) \<le> fl (fl (fl (d - m) / q) * 248)"
    by (rule rounding_mono[OF r])
  then have "264 - fl (fl (fl (d - m) / q) * 248) \<le> 264 - fl (fl (fl (c - m) / q) * 248)"
    by simp
  then show ?thesis by (rule rounding_mono[OF r])
qed

section \<open>Hit-testing\<close>

text \<open>
  A rendered width of zero makes the scale infinite; for a pointer on the left edge the
  hover index is then \<^verbatim>\<open>NaN\<close>, which selects no chart point.
\<close>

lemma handleMouseMove_zero_width:
  "cps \<noteq> [] \<Longrightarrow> handleMouseMove cps (Num l) (Num l) (Num 0) hov = Some NaN"
  by (simp add: handleMouseMove_def Let_def width_def padding_def inf_of_sign_def
      js_sub_def Math_max2_def Math_min2_def)

text \<open>
  C3. For a non-empty window and every index \<open>i\<close> below its length: a pointer whose
  offset from the left edge of the drawing is the x-coordinate of chart point \<open>i\<close>, on a
  drawing rendered at its logical width \<open>640\<close> (so that the scale is \<open>1\<close>), sets the
  hover index to \<open>i\<close>. And for every finite pointer position and left edge, and every
  rendered width other than zero, the hover index is set to a whole number from \<open>0\<close> to
  \<open>length ps - 1\<close>.
\<close>

theorem hit_testing:
  "(\<forall>i xi l. ps \<noteq> [] \<and> i < length ps \<and> xpos (chartPoints ps ! i) = Num xi \<longrightarrow>
      handleMouseMove (chartPoints ps) (Num (xi + l)) (Num l) width hov = Some (Num (real i)))
   \<and> (\<forall>cx l w. ps \<noteq> [] \<and> w \<noteq> 0 \<longrightarrow>
        (\<exists>k. handleMouseMove (chartPoints ps) (Num cx) (Num l) (Num w) hov = Some (Num (real k))
             \<and> k < length ps))"
proof -
  have a: "handleMouseMove (chartPoints ps) (Num (xi + l)) (Num l) width hov = Some (Num (real i))"
    if h: "ps \<noteq> [] \<and> i < length ps \<and> xpos (chartPoints ps ! i) = Num xi" for i xi l
  proof -
    let ?n = "length ps"
    let ?d = "max 1 (real ?n - 1)"
    from h have "i < length ps" and "xpos (chartPoints ps ! i) = Num xi"
      by simp_all
    then have xi: "xi = 16 + real i / ?d * 608"
      by (simp only: chartPoints_nth xpos_chartPoint number.inject)
    have d: "0 < ?d" by simp
    have i: "real i \<le> real ?n - 1" using h by linarith
    have c01: "0 \<le> real i / ?d" "real i / ?d \<le> 1"
      using i d by (simp_all add: max_def)
    have prod: "real i / ?d * (real ?n - 1) = real i"
    proof (cases "?n = 1")
      case True
      with h show ?thesis by simp
    next
      case False
      moreover from h have "0 < ?n" by simp
      ultimately have "2 \<le> ?n" by arith
      then have "?d = real ?n - 1" by (simp add: max_def)
      with d show ?thesis by simp
    qed
    from h have ne: "chartPoints ps \<noteq> []" by simp
    have "((xi + l - l) * (640 / 640) - 16) / 608 = real i / ?d"
      by (simp add: xi)
    then have "handleMouseMove (chartPoints ps) (Num (xi + l)) (Num l) (Num 640) hov
        = Some (Num (of_int \<lfloor>min 1 (max 0 (real i / ?d)) * (real ?n - 1) + 1 / 2\<rfloor>))"
      using handleMouseMove_Num[OF ne, of 640 "xi + l" l hov] by simp
    also have "min 1 (max 0 (real i / ?d)) = real i / ?d"
      using c01 by (simp add: min_def max_def)
    also have "\<lfloor>real i / ?d * (real ?n - 1) + 1 / 2\<rfloor> = int i"
      unfolding prod by linarith
    finally show ?thesis by (simp add: width_def)
  qed
  have b: "\<exists>k. handleMouseMove (chartPoints ps) (Num cx) (Num l) (Num w) hov = Some (Num (real k))
             \<and> k < length ps"
    if h: "ps \<noteq> [] \<and> w \<noteq> 0" for cx l w
  proof -
    let ?c = "min 1 (max 0 (((cx - l) * (640 / w) - 16) / 608))"
    let ?f = "\<lfloor>?c * (real (length ps) - 1) + 1 / 2\<rfloor>"
    from h have ne: "chartPoints ps \<noteq> []" by simp
    have "0 \<le> ?c" "?c \<le> 1" by simp_all
    from round_clamped[OF this, of "length ps"] h
    have f: "0 \<le> ?f" "nat ?f < length ps" by simp_all
    from f(1) have "real_of_int ?f = real (nat ?f)" by simp
    with handleMouseMove_Num[OF ne, of w cx l hov] h f(2) show ?thesis
      by (intro exI[of _ "nat ?f"]) simp
  qed
  from a b show ?thesis by blast
qed

theorem hit_testing_witness:
  "xpos (chartPoints (data series3) ! 1) = Num 320
   \<and> handleMouseMove (chartPoints (data series3)) (Num 325) (Num 5) width None = Some (Num 1)
   \<and> (\<exists>k<3. handleMouseMove (chartPoints (data series3)) (Num 10000) (Num 0) (Num 320) None
              = Some (Num (real k)))"
proof -
  note t = hit_testing [of "data series3" None]
  have x: "xpos (chartPoints (data series3) ! 1) = Num 320"
    by (simp add: chartPoints_nth xpos_chartPoint series3_def)
  have ne: "data series3 \<noteq> []" and len: "length (data series3) = 3"
    by (simp_all add: series3_def)
  from t have "\<forall>i xi l. data series3 \<noteq> [] \<and> i < length (data series3)
         \<and> xpos (chartPoints (data series3) ! i) = Num xi \<longrightarrow>
      handleMouseMove (chartPoints (data series3)) (Num (xi + l)) (Num l) width None
        = Some (Num (real i))"
    by blast
  from this[rule_format, of 1 320 5] x ne len
  have a: "handleMouseMove (chartPoints (data series3)) (Num 325) (Num 5) width None = Some (Num 1)"
    by simp
  from t have "\<forall>cx l w. data series3 \<noteq> [] \<and> w \<noteq> 0 \<longrightarrow>
        (\<exists>k. handleMouseMove (chartPoints (data series3)) (Num cx) (Num l) (Num w) None
               = Some (Num (real k)) \<and> k < length (data series3))"
    by blast
  from this[rule_format, of 320 10000 0] ne len
  have b: "\<exists>k<3. handleMouseMove (chartPoints (data series3)) (Num 10000) (Num 0) (Num 320) None
              = Some (Num (real k))"
    by auto
  from x a b show ?thesis by blast
qed

section \<open>Projection geometry\<close>

lemmas proj_unfold = chartPoints_fl_def enumerate_eq_zip chartPoint_fl_def
      priceRange_fl_def minPrice_def maxPrice_def Math_min_def Math_max_def
      Math_min2_def Math_max2_def js_or_def padding_def height_def width_def bar_def

lemma bar_wf:
  "l \<le> h \<Longrightarrow>
   \<exists>l' h' c'. low (bar d o' h l c v) = Num l' \<and> high (bar d o' h l c v) = Num h'
      \<and> close (bar d o' h l c v) = Num c' \<and> l' \<le> h'"
  by (simp add: bar_def)

text \<open>
  C4, as amended. For a non-empty window of \<open>n\<close> bars, and for every rounding of the
  arithmetic that keeps the order and is exact on the whole numbers up to \<open>1024\<close>: bar
  \<open>0\<close> is at \<open>x = 16\<close>; bar \<open>n - 1\<close> is at \<open>x = 640 - 16\<close> when \<open>n \<ge> 2\<close>, and at
  \<open>x = 16\<close> when \<open>n = 1\<close> (the only bar is bar \<open>0\<close>); from each bar to the next \<open>x\<close> does
  not decrease; and when every bar has finite low, high and close with low \<open>\<le>\<close> high, and
  the closes increase strictly from each bar to the next, \<open>y\<close> does not increase from each
  point to the next. Without rounding, that is for the projection in exact arithmetic,
  consecutive bars are \<open>608 / (n - 1)\<close> apart, and under the same conditions on the bars
  \<open>y\<close> decreases strictly. With rounding neither of the two holds in general: under
  rounding down to eighths the closes \<open>4\<close> and \<open>4.01\<close> of the second evaluation below are
  drawn at the same \<open>y\<close>.
\<close>

theorem projection_geometry:
  "ps \<noteq> [] \<and> rounding fl \<longrightarrow>
     xpos (chartPoints_fl fl ps ! 0) = padding
     \<and> (2 \<le> length ps \<longrightarrow>
          xpos (chartPoints_fl fl ps ! (length ps - 1)) = js_sub width padding)
     \<and> (length ps = 1 \<longrightarrow> xpos (chartPoints_fl fl ps ! (length ps - 1)) = padding)
     \<and> (\<forall>i. i + 1 < length ps \<longrightarrow>
           (\<exists>a b. xpos (chartPoints_fl fl ps ! i) = Num a
                \<and> xpos (chartPoints_fl fl ps ! (i + 1)) = Num b \<and> a \<le> b))
     \<and> chartPoints_fl exact ps = chartPoints ps
     \<and> (\<forall>i. i + 1 < length ps \<longrightarrow>
           js_sub (xpos (chartPoints ps ! (i + 1))) (xpos (chartPoints ps ! i))
             = Num (608 / (real (length ps) - 1)))
     \<and> ((\<forall>p\<in>set ps. \<exists>l h c. low p = Num l \<and> high p = Num h \<and> close p = Num c \<and> l \<le> h)
         \<and> (\<forall>i. i + 1 < length ps \<longrightarrow> js_lt (close (ps ! i)) (close (ps ! (i + 1))))
         \<longrightarrow> (\<forall>i. i + 1 < length ps \<longrightarrow>
                (\<exists>a b. ypos (chartPoints_fl fl ps ! i) = Num a
                     \<and> ypos (chartPoints_fl fl ps ! (i + 1)) = Num b \<and> b \<le> a)
                \<and> js_lt (ypos (chartPoints ps ! (i + 1))) (ypos (chartPoints ps ! i))))"
proof
  assume h: "ps \<noteq> [] \<and> rounding fl"
  then have ne: "ps \<noteq> []" and r: "rounding fl" by simp_all
  note k = rounding_consts[OF r]
  from ne have n0: "0 < length ps" by simp
  have x0: "xpos (chartPoints_fl fl ps ! 0) = padding"
    using n0 by (simp add: chartPoints_fl_nth xpos_chartPoint_fl[OF r] padding_def k)
  have xl: "xpos (chartPoints_fl fl ps ! (length ps - 1)) = js_sub width padding"
    if "2 \<le> length ps"
  proof -
    from that have "real (length ps - 1) = real (length ps) - 1" by simp
    moreover from that have "max 1 (real (length ps) - 1) = real (length ps) - 1"
      by (simp add: max_def)
    ultimately show ?thesis
      using that
      by (simp add: chartPoints_fl_nth xpos_chartPoint_fl[OF r] padding_def width_def k)
  qed
  have x1: "xpos (chartPoints_fl fl ps ! (length ps - 1)) = padding" if "length ps = 1"
    using that x0 by simp
  have xm: "\<exists>a b. xpos (chartPoints_fl fl ps ! i) = Num a
                \<and> xpos (chartPoints_fl fl ps ! (i + 1)) = Num b \<and> a \<le> b"
    if "i + 1 < length ps" for i
  proof -
    have "i \<le> i + 1" by simp
    from xpos_fl_mono[OF r this, of "length ps"] that show ?thesis
      by (simp add: chartPoints_fl_nth xpos_chartPoint_fl[OF r])
  qed
  have sp: "js_sub (xpos (chartPoints ps ! (i + 1))) (xpos (chartPoints ps ! i))
             = Num (608 / (real (length ps) - 1))" if "i + 1 < length ps" for i
  proof -
    define d where "d = real (length ps) - 1"
    from that have d: "0 < d" by (simp add: d_def)
    have m: "max 1 d = d"
      using that by (simp add: d_def max_def)
    from d have "16 + real (i + 1) / d * 608 - (16 + real i / d * 608) = 608 / d"
      by (simp add: field_simps)
    with that show ?thesis
      by (simp add: chartPoints_nth xpos_chartPoint m d_def[symmetric])
  qed
  have ym: "(\<exists>a b. ypos (chartPoints_fl fl ps ! i) = Num a
                     \<and> ypos (chartPoints_fl fl ps ! (i + 1)) = Num b \<and> b \<le> a)
            \<and> js_lt (ypos (chartPoints ps ! (i + 1))) (ypos (chartPoints ps ! i))"
    if wf: "\<forall>p\<in>set ps. \<exists>l h c. low p = Num l \<and> high p = Num h \<and> close p = Num c \<and> l \<le> h"
      and inc: "\<forall>i. i + 1 < length ps \<longrightarrow> js_lt (close (ps ! i)) (close (ps ! (i + 1)))"
      and i: "i + 1 < length ps" for i
  proof -
    from wf have lh: "\<forall>p\<in>set ps. \<exists>l h. low p = Num l \<and> high p = Num h \<and> l \<le> h" by blast
    from min_max_prices[OF ne lh] obtain m M where
      mM: "minPrice ps = Num m" "maxPrice ps = Num M" "m \<le> M" by blast
    from priceRange_fl_pos[OF r mM] obtain q where
      q: "priceRange_fl fl ps = Num q" "0 < q" by blast
    from priceRange_fl_pos[OF rounding_exact mM] obtain e where
      e: "priceRange ps = Num e" "0 < e"
      by (auto simp: priceRange_fl_def priceRange_def)
    from i have mem: "ps ! i \<in> set ps" "ps ! (i + 1) \<in> set ps" by simp_all
    with wf obtain c d where cd: "close (ps ! i) = Num c" "close (ps ! (i + 1)) = Num d"
      by blast
    from inc i cd have lt: "c < d" by auto
    from q(2) have q0: "q \<noteq> 0" by simp
    from lt have "c \<le> d" by simp
    note am = ypos_fl_antimono[OF r this q(2), of m]
    from i have i0: "i < length ps" by simp
    have y0: "ypos (chartPoints_fl fl ps ! i) = Num (fl (264 - fl (fl (fl (c - m) / q) * 248)))"
      unfolding chartPoints_fl_nth[OF i0]
      by (rule ypos_chartPoint_fl[OF r mM(1) q(1) q0 cd(1)])
    have y1: "ypos (chartPoints_fl fl ps ! (i + 1))
                = Num (fl (264 - fl (fl (fl (d - m) / q) * 248)))"
      unfolding chartPoints_fl_nth[OF i]
      by (rule ypos_chartPoint_fl[OF r mM(1) q(1) q0 cd(2)])
    from y0 y1 am
    have weak: "\<exists>a b. ypos (chartPoints_fl fl ps ! i) = Num a
                     \<and> ypos (chartPoints_fl fl ps ! (i + 1)) = Num b \<and> b \<le> a"
      by blast
    from lt e(2) have "(c - m) / e < (d - m) / e"
      by (simp add: divide_strict_right_mono)
    then have "(c - m) / e * 248 < (d - m) / e * 248"
      by (rule mult_strict_right_mono) simp
    then have "264 - (d - m) / e * 248 < 264 - (c - m) / e * 248" by linarith
    moreover from e have "e \<noteq> 0" by simp
    ultimately have "js_lt (ypos (chartPoints ps ! (i + 1))) (ypos (chartPoints ps ! i))"
      using i mM(1) e(1) cd by (simp add: chartPoints_nth ypos_chartPoint)
    with weak show ?thesis by blast
  qed
  from x0 xl x1 xm sp ym chartPoints_fl_exact[of ps]
  show "xpos (chartPoints_fl fl ps ! 0) = padding
     \<and> (2 \<le> length ps \<longrightarrow>
          xpos (chartPoints_fl fl ps ! (length ps - 1)) = js_sub width padding)
     \<and> (length ps = 1 \<longrightarrow> xpos (chartPoints_fl fl ps ! (length ps - 1)) = padding)
     \<and> (\<forall>i. i + 1 < length ps \<longrightarrow>
           (\<exists>a b. xpos (chartPoints_fl fl ps ! i) = Num a
                \<and> xpos (chartPoints_fl fl ps ! (i + 1)) = Num b \<and> a \<le> b))
     \<and> chartPoints_fl exact ps = chartPoints ps
     \<and> (\<forall>i. i + 1 < length ps \<longrightarrow>
           js_sub (xpos (chartPoints ps ! (i + 1))) (xpos (chartPoints ps ! i))
             = Num (608 / (real (length ps) - 1)))
     \<and> ((\<forall>p\<in>set ps. \<exists>l h c. low p = Num l \<and> high p = Num h \<and> close p = Num c \<and> l \<le> h)
         \<and> (\<forall>i. i + 1 < length ps \<longrightarrow> js_lt (close (ps ! i)) (close (ps ! (i + 1))))
         \<longrightarrow> (\<forall>i. i + 1 < length ps \<longrightarrow>
                (\<exists>a b. ypos (chartPoints_fl fl ps ! i) = Num a
                     \<and> ypos (chartPoints_fl fl ps ! (i + 1)) = Num b \<and> b \<le> a)
                \<and> js_lt (ypos (chartPoints ps ! (i + 1))) (ypos (chartPoints ps ! i))))"
    by blast
qed

theorem projection_geometry_witness:
  "xpos (chartPoints_fl eighths near2 ! 0) = Num 16
   \<and> xpos (chartPoints_fl eighths near2 ! 1) = Num 624
   \<and> ypos (chartPoints_fl eighths near2 ! 0) = Num 140
   \<and> ypos (chartPoints_fl eighths near2 ! 1) = Num 140
   \<and> js_lt (ypos (chartPoints near2 ! 1)) (ypos (chartPoints near2 ! 0))
   \<and> xpos (chartPoints rising3 ! 0) = Num 16
   \<and> xpos (chartPoints rising3 ! 2) = Num 624
   \<and> js_sub (xpos (chartPoints rising3 ! 1)) (xpos (chartPoints rising3 ! 0)) = Num 304
   \<and> js_sub (xpos (chartPoints rising3 ! 2)) (xpos (chartPoints rising3 ! 1)) = Num 304
   \<and> js_lt (ypos (chartPoints rising3 ! 1)) (ypos (chartPoints rising3 ! 0))
   \<and> js_lt (ypos (chartPoints rising3 ! 2)) (ypos (chartPoints rising3 ! 1))
   \<and> xpos (chartPoints (data series1) ! 0) = Num 16"
proof -
  note t = projection_geometry [of rising3 exact]
  note t1 = projection_geometry [of "data series1" exact]
  note tn = projection_geometry [of near2 eighths]
  have ne: "rising3 \<noteq> []" and len: "length rising3 = 3"
    by (simp_all add: rising3_def)
  have wf: "\<forall>p\<in>set rising3. \<exists>l h c. low p = Num l \<and> high p = Num h \<and> close p = Num c \<and> l \<le> h"
    by (simp add: rising3_def bar_def)
  have inc: "\<forall>i. i + 1 < length rising3 \<longrightarrow>
               js_lt (close (rising3 ! i)) (close (rising3 ! (i + 1)))"
  proof (intro allI impI)
    fix i assume "i + 1 < length rising3"
    with len have "i = 0 \<or> i = 1" by auto
    then show "js_lt (close (rising3 ! i)) (close (rising3 ! (i + 1)))"
      by (auto simp: rising3_def bar_def)
  qed
  from t ne rounding_exact have ex: "chartPoints_fl exact rising3 = chartPoints rising3"
    by blast
  from t ne rounding_exact have "xpos (chartPoints_fl exact rising3 ! 0) = padding"
    by blast
  then have x0: "xpos (chartPoints rising3 ! 0) = Num 16"
    by (simp add: ex padding_def)
  from t ne rounding_exact
  have "2 \<le> length rising3 \<longrightarrow>
          xpos (chartPoints_fl exact rising3 ! (length rising3 - 1)) = js_sub width padding"
    by blast
  then have "xpos (chartPoints_fl exact rising3 ! 2) = js_sub width padding"
    by (simp add: len)
  then have x2: "xpos (chartPoints rising3 ! 2) = Num 624"
    by (simp add: ex len padding_def width_def)
  from t ne rounding_exact have sp: "\<forall>i. i + 1 < length rising3 \<longrightarrow>
           js_sub (xpos (chartPoints rising3 ! (i + 1))) (xpos (chartPoints rising3 ! i))
             = Num (608 / (real (length rising3) - 1))"
    by blast
  from sp[rule_format, of 0] sp[rule_format, of 1] len
  have d: "js_sub (xpos (chartPoints rising3 ! 1)) (xpos (chartPoints rising3 ! 0)) = Num 304"
    "js_sub (xpos (chartPoints rising3 ! 2)) (xpos (chartPoints rising3 ! 1)) = Num 304"
    by (simp_all add: numeral_2_eq_2)
  from t ne rounding_exact wf inc have ym: "\<forall>i. i + 1 < length rising3 \<longrightarrow>
                js_lt (ypos (chartPoints rising3 ! (i + 1))) (ypos (chartPoints rising3 ! i))"
    by blast
  from ym[rule_format, of 0] ym[rule_format, of 1] len
  have y: "js_lt (ypos (chartPoints rising3 ! 1)) (ypos (chartPoints rising3 ! 0))"
    "js_lt (ypos (chartPoints rising3 ! 2)) (ypos (chartPoints rising3 ! 1))"
    by (simp_all add: numeral_2_eq_2)
  have ne1: "data series1 \<noteq> []" by (simp add: series1_def)
  with t1 rounding_exact have "xpos (chartPoints_fl exact (data series1) ! 0) = padding"
    and "chartPoints_fl exact (data series1) = chartPoints (data series1)"
    by blast+
  then have s1: "xpos (chartPoints (data series1) ! 0) = Num 16"
    by (simp add: padding_def)
  have nen: "near2 \<noteq> []" and lenn: "length near2 = 2"
    by (simp_all add: near2_def)
  have wfn: "\<forall>p\<in>set near2. \<exists>l h c. low p = Num l \<and> high p = Num h \<and> close p = Num c \<and> l \<le> h"
  proof (rule ballI)
    fix p assume "p \<in> set near2"
    then consider "p = bar ''2024-01-02'' 4 8 0 4 100"
      | "p = bar ''2024-01-03'' 4 8 0 (401 / 100) 100"
      by (auto simp: near2_def)
    then show "\<exists>l h c. low p = Num l \<and> high p = Num h \<and> close p = Num c \<and> l \<le> h"
    proof cases
      case 1
      show ?thesis unfolding 1 by (rule bar_wf) simp
    next
      case 2
      show ?thesis unfolding 2 by (rule bar_wf) simp
    qed
  qed
  have incn: "\<forall>i. i + 1 < length near2 \<longrightarrow>
               js_lt (close (near2 ! i)) (close (near2 ! (i + 1)))"
    by (simp add: near2_def bar_def)
  from tn nen rounding_eighths have "xpos (chartPoints_fl eighths near2 ! 0) = padding"
    by blast
  then have n0: "xpos (chartPoints_fl eighths near2 ! 0) = Num 16"
    by (simp add: padding_def)
  from tn nen rounding_eighths
  have "2 \<le> length near2 \<longrightarrow>
          xpos (chartPoints_fl eighths near2 ! (length near2 - 1)) = js_sub width padding"
    by blast
  then have "xpos (chartPoints_fl eighths near2 ! 1) = js_sub width padding"
    by (simp add: lenn)
  then have n1: "xpos (chartPoints_fl eighths near2 ! 1) = Num 624"
    by (simp add: lenn padding_def width_def)
  from tn nen rounding_eighths wfn incn have "\<forall>i. i + 1 < length near2 \<longrightarrow>
      js_lt (ypos (chartPoints near2 ! (i + 1))) (ypos (chartPoints near2 ! i))"
    by blast
  from this[rule_format, of 0] lenn
  have ny: "js_lt (ypos (chartPoints near2 ! 1)) (ypos (chartPoints near2 ! 0))"
    by simp
  have e0: "ypos (chartPoints_fl eighths near2 ! 0) = Num 140"
    by (simp add: near2_def proj_unfold eighths_def)
  have e1: "ypos (chartPoints_fl eighths near2 ! 1) = Num 140"
    by (simp add: near2_def proj_unfold eighths_def)
  from n0 n1 e0 e1 ny x0 x2 d y s1 show ?thesis by blast
qed

text \<open>
  C4 as stated fails twice. The one bar of a one-bar window is at \<open>x = 16\<close>, not at
  \<open>640 - 16\<close>. And for bars whose highs lie below their lows the price range is negative,
  so that with increasing closes the y-coordinates increase.
\<close>

theorem projection_geometry_counterexample:
  "\<not> (xpos (chartPoints (data series1) ! (length (data series1) - 1)) = js_sub width padding)
   \<and> js_lt (close (inverted2 ! 0)) (close (inverted2 ! 1))
   \<and> \<not> js_lt (ypos (chartPoints inverted2 ! 1)) (ypos (chartPoints inverted2 ! 0))"
  by (simp add: series1_def inverted2_def bar_def chartPoints_def enumerate_eq_zip chartPoint_def
      padding_def width_def height_def minPrice_def maxPrice_def priceRange_def
      Math_min_def Math_max_def Math_min2_def Math_max2_def js_or_def)

section \<open>A flat window\<close>

text \<open>
  C10. For a non-empty window whose bars all have low, high and close equal to one finite
  value, the greatest high equals the least low, the price range is replaced by \<open>1\<close>, and
  every chart point has \<open>y = 280 - 16 = 264\<close>, the baseline.
\<close>

theorem flat_window:
  "ps \<noteq> [] \<and> (\<forall>p\<in>set ps. low p = Num v \<and> high p = Num v \<and> close p = Num v) \<longrightarrow>
     maxPrice ps = minPrice ps \<and> priceRange ps = Num 1
     \<and> (\<forall>i<length ps. ypos (chartPoints ps ! i) = js_sub height padding)
     \<and> js_sub height padding = Num 264"
proof
  assume h: "ps \<noteq> [] \<and> (\<forall>p\<in>set ps. low p = Num v \<and> high p = Num v \<and> close p = Num v)"
  then have ne: "ps \<noteq> []" and all: "\<forall>p\<in>set ps. low p = Num v \<and> high p = Num v \<and> close p = Num v"
    by simp_all
  from all have "\<forall>x\<in>set (map low ps). is_finite x" by simp
  with ne Math_min_finite[of "map low ps"] obtain m where
    m: "minPrice ps = Num m" "Num m \<in> set (map low ps)"
    by (auto simp: minPrice_def)
  from m(2) all have mv: "m = v" by auto
  from all have "\<forall>x\<in>set (map high ps). is_finite x" by simp
  with ne Math_max_finite[of "map high ps"] obtain M where
    M: "maxPrice ps = Num M" "Num M \<in> set (map high ps)"
    by (auto simp: maxPrice_def)
  from M(2) all have Mv: "M = v" by auto
  from priceRange_Num[OF m(1) M(1)] mv Mv have r: "priceRange ps = Num 1" by simp
  have y: "ypos (chartPoints ps ! i) = js_sub height padding" if "i < length ps" for i
  proof -
    from that all have "close (ps ! i) = Num v" by simp
    from ypos_chartPoint[OF m(1) r _ this] that mv show ?thesis
      by (simp add: chartPoints_nth height_def padding_def)
  qed
  from m(1) M(1) mv Mv r y
  show "maxPrice ps = minPrice ps \<and> priceRange ps = Num 1
     \<and> (\<forall>i<length ps. ypos (chartPoints ps ! i) = js_sub height padding)
     \<and> js_sub height padding = Num 264"
    by (simp add: height_def padding_def)
qed

theorem flat_window_witness:
  "priceRange flat2 = Num 1
   \<and> ypos (chartPoints flat2 ! 0) = Num 264 \<and> ypos (chartPoints flat2 ! 1) = Num 264"
proof -
  have "flat2 \<noteq> [] \<and> (\<forall>p\<in>set flat2. low p = Num 7 \<and> high p = Num 7 \<and> close p = Num 7)"
    by (simp add: flat2_def bar_def)
  with flat_window [of flat2 7]
  have t: "priceRange flat2 = Num 1"
    "\<forall>i<length flat2. ypos (chartPoints flat2 ! i) = js_sub height padding"
    "js_sub height padding = Num 264"
    by blast+
  have "length flat2 = 2" by (simp add: flat2_def)
  with t(2)[rule_format, of 0] t(2)[rule_format, of 1] t(1,3) show ?thesis by simp
qed

section \<open>Hover index out of bounds\<close>

lemma index_by_nat:
  "i < length xs \<Longrightarrow> index_by xs (Num (real i)) = Some (xs ! i)"
  by simp

lemma tooltipConfig_None_iff: "tooltipConfig fmt hp = None \<longleftrightarrow> hp = None"
  by (simp add: tooltipConfig_def Let_def split: option.splits)

text \<open>
  C9. A hover index that is negative or not below the number of chart points selects no
  point, while every index below it selects the point at that index. The tooltip is
  computed exactly when there is a hovered point. And whenever the hover index selects
  no point of a non-empty window, the chart is still drawn: it is the drawing of the
  chart points with no hover group, that is, without hover line, dot and tooltip.
\<close>

theorem hover_out_of_bounds:
  "(\<forall>r. r < 0 \<or> real (length ps) \<le> r \<longrightarrow>
      hoveredPoint (Some (Num r)) (chartPoints ps) = None)
   \<and> (\<forall>i<length ps. hoveredPoint (Some (Num (real i))) (chartPoints ps)
                       = Some (chartPoints ps ! i))
   \<and> (tooltipConfig fmt hp = None \<longleftrightarrow> hp = None)
   \<and> (ps \<noteq> [] \<and> hoveredPoint hov (chartPoints ps) = None \<longrightarrow>
        tooltipConfig fmt (hoveredPoint hov (chartPoints ps)) = None
        \<and> StockChart fmt ps hov = Svg (map (\<lambda>c. (xpos c, ypos c)) (chartPoints ps)) None)"
proof -
  have a: "hoveredPoint (Some (Num r)) (chartPoints ps) = None"
    if "r < 0 \<or> real (length ps) \<le> r" for r
    using that by (auto simp: hoveredPoint_def)
  have b: "hoveredPoint (Some (Num (real i))) (chartPoints ps) = Some (chartPoints ps ! i)"
    if "i < length ps" for i
    using that by (simp add: hoveredPoint_def)
  have d: "tooltipConfig fmt (hoveredPoint hov (chartPoints ps)) = None
        \<and> StockChart fmt ps hov = Svg (map (\<lambda>c. (xpos c, ypos c)) (chartPoints ps)) None"
    if "ps \<noteq> [] \<and> hoveredPoint hov (chartPoints ps) = None"
    using that by (simp add: StockChart_def Let_def tooltipConfig_def)
  from a b d tooltipConfig_None_iff[of fmt hp] show ?thesis by blast
qed

theorem hover_out_of_bounds_witness:
  "hoveredPoint (Some (Num 2)) (chartPoints (filteredData (Some series3) R1D)) = None
   \<and> StockChart (\<lambda>d. d) (filteredData (Some series3) R1D) (Some (Num 2))
       = Svg [(Num 16, Num 202)] None
   \<and> hoveredPoint (Some (Num 2)) (chartPoints (data series3)) = Some (chartPoints (data series3) ! 2)"
proof -
  let ?w = "filteredData (Some series3) R1D"
  note t = hover_out_of_bounds [of ?w "\<lambda>d. d" None "Some (Num 2)"]
  note u = hover_out_of_bounds [of "data series3" "\<lambda>d. d" None None]
  have w: "?w = [bar ''2024-01-04'' 12 12 8 9 300]"
    by (simp add: filteredData_def slice_def series3_def)
  then have len: "length ?w = 1" and ne: "?w \<noteq> []" by simp_all
  from t have "\<forall>r. r < 0 \<or> real (length ?w) \<le> r \<longrightarrow>
      hoveredPoint (Some (Num r)) (chartPoints ?w) = None"
    by blast
  from this[rule_format, of 2] len
  have a: "hoveredPoint (Some (Num 2)) (chartPoints ?w) = None" by simp
  with t ne have "StockChart (\<lambda>d. d) ?w (Some (Num 2))
       = Svg (map (\<lambda>c. (xpos c, ypos c)) (chartPoints ?w)) None"
    by blast
  moreover have "map (\<lambda>c. (xpos c, ypos c)) (chartPoints ?w) = [(Num 16, Num 202)]"
    unfolding w
    by (simp add: bar_def chartPoints_def enumerate_eq_zip chartPoint_def
        padding_def width_def height_def minPrice_def maxPrice_def priceRange_def
        Math_min_def Math_max_def Math_min2_def Math_max2_def js_or_def)
  ultimately have b: "StockChart (\<lambda>d. d) ?w (Some (Num 2)) = Svg [(Num 16, Num 202)] None"
    by simp
  have l3: "length (data series3) = 3" by (simp add: series3_def)
  from u have "\<forall>i<length (data series3).
      hoveredPoint (Some (Num (real i))) (chartPoints (data series3))
        = Some (chartPoints (data series3) ! i)"
    by blast
  from this[rule_format, of 2] l3
  have c: "hoveredPoint (Some (Num 2)) (chartPoints (data series3))
      = Some (chartPoints (data series3) ! 2)"
    by simp
  from a b c show ?thesis by blast
qed

section \<open>The life of the hover index\<close>

lemma run_SelectRange:
  "hoverIndex (run s (map SelectRange rs)) = hoverIndex s
   \<and> stockData (run s (map SelectRange rs)) = stockData s"
  unfolding run_def by (induction rs arbitrary: s) simp_all

lemma tooltipConfig_Some: "\<exists>t. tooltipConfig fmt (Some h) = Some t"
  by (simp add: tooltipConfig_def Let_def)

lemma StockChart_hover:
  "ps \<noteq> [] \<Longrightarrow> hoveredPoint hov (chartPoints ps) = Some h \<Longrightarrow>
   tooltipConfig fmt (Some h) = Some t \<Longrightarrow>
   StockChart fmt ps hov
     = Svg (map (\<lambda>c. (xpos c, ypos c)) (chartPoints ps))
         (Some \<lparr> line_x = xpos h, line_y1 = padding, line_y2 = js_sub height padding,
                 dot_cx = xpos h, dot_cy = ypos h, tooltip = t,
                 tooltip_high = high (point h), tooltip_low = low (point h) \<rparr>)"
  by (simp add: StockChart_def Let_def)

lemma StockChart_no_hover:
  "ps \<noteq> [] \<Longrightarrow> hoveredPoint hov (chartPoints ps) = None \<Longrightarrow>
   StockChart fmt ps hov = Svg (map (\<lambda>c. (xpos c, ypos c)) (chartPoints ps)) None"
  by (simp add: StockChart_def Let_def tooltipConfig_def)

lemma view_SelectRange:
  "view fmt (step s (SelectRange r)) = StockChart fmt (filteredData (stockData s) r) (hoverIndex s)"
  by (simp add: view_def)

lemmas chart_unfold = chartPoints_def enumerate_eq_zip chartPoint_def
      priceRange_def minPrice_def maxPrice_def Math_min_def Math_max_def
      Math_min2_def Math_max2_def js_or_def padding_def height_def width_def

text \<open>
  C2, as amended. A change of the selected range leaves the hover index as it was: it
  changes the range and nothing else, also when repeated. Over a non-empty window the
  pointer leaving the chart clears the hover index and pointer movement sets it. When
  the series arrives, in a state that has none, the hover index is \<^verbatim>\<open>null\<close> and the
  chart is drawn without hover group (or is the placeholder, for a series without bars).
  After a change of the range, a hover index below the length of the new window is drawn
  there: the hover group is that of the point of the new window at that index, with its
  tooltip and the high and low of its bar. A hover index that is negative or not below
  the length of the new, non-empty window is not drawn.
\<close>

theorem hover_lifecycle:
  "hoverIndex (step s (SelectRange r)) = hoverIndex s
   \<and> stockData (step s (SelectRange r)) = stockData s
   \<and> selectedRange (step s (SelectRange r)) = r
   \<and> hoverIndex (run s (map SelectRange rs)) = hoverIndex s
   \<and> (filteredData (stockData s) (selectedRange s) \<noteq> [] \<longrightarrow>
        hoverIndex (step s MouseLeave) = None
        \<and> hoverIndex (step s (MouseMove clientX bounds_left bounds_width)) \<noteq> None)
   \<and> (stockData s = None \<longrightarrow>
        stockData (step s (SetStockData sd)) = Some sd
        \<and> selectedRange (step s (SetStockData sd)) = selectedRange s
        \<and> hoverIndex (step s (SetStockData sd)) = None
        \<and> view fmt (step s (SetStockData sd))
            = (if filteredData (Some sd) (selectedRange s) = [] then Placeholder
               else Svg (map (\<lambda>c. (xpos c, ypos c))
                          (chartPoints (filteredData (Some sd) (selectedRange s)))) None))
   \<and> (\<forall>i. i < length (filteredData (stockData s) r) \<and> hoverIndex s = Some (Num (real i)) \<longrightarrow>
        (\<exists>t. tooltipConfig fmt (Some (chartPoints (filteredData (stockData s) r) ! i)) = Some t
           \<and> view fmt (step s (SelectRange r))
               = Svg (map (\<lambda>c. (xpos c, ypos c)) (chartPoints (filteredData (stockData s) r)))
                   (Some \<lparr> line_x = xpos (chartPoints (filteredData (stockData s) r) ! i),
                           line_y1 = padding, line_y2 = js_sub height padding,
                           dot_cx = xpos (chartPoints (filteredData (stockData s) r) ! i),
                           dot_cy = ypos (chartPoints (filteredData (stockData s) r) ! i),
                           tooltip = t,
                           tooltip_high = high (filteredData (stockData s) r ! i),
                           tooltip_low = low (filteredData (stockData s) r ! i) \<rparr>)))
   \<and> (\<forall>x. filteredData (stockData s) r \<noteq> [] \<and> hoverIndex s = Some (Num x)
          \<and> (x < 0 \<or> real (length (filteredData (stockData s) r)) \<le> x) \<longrightarrow>
        view fmt (step s (SelectRange r))
          = Svg (map (\<lambda>c. (xpos c, ypos c)) (chartPoints (filteredData (stockData s) r))) None)"
proof -
  let ?w = "filteredData (stockData s) r"
  have a: "hoverIndex (step s (SelectRange r)) = hoverIndex s
     \<and> stockData (step s (SelectRange r)) = stockData s
     \<and> selectedRange (step s (SelectRange r)) = r"
    by simp
  have b: "hoverIndex (run s (map SelectRange rs)) = hoverIndex s"
    using run_SelectRange[of s rs] by simp
  have c: "hoverIndex (step s MouseLeave) = None
        \<and> hoverIndex (step s (MouseMove clientX bounds_left bounds_width)) \<noteq> None"
    if "filteredData (stockData s) (selectedRange s) \<noteq> []"
    using that by (simp add: Let_def handleMouseLeave_def handleMouseMove_def)
  have d: "stockData (step s (SetStockData sd)) = Some sd
        \<and> selectedRange (step s (SetStockData sd)) = selectedRange s
        \<and> hoverIndex (step s (SetStockData sd)) = None
        \<and> view fmt (step s (SetStockData sd))
            = (if filteredData (Some sd) (selectedRange s) = [] then Placeholder
               else Svg (map (\<lambda>c. (xpos c, ypos c))
                          (chartPoints (filteredData (Some sd) (selectedRange s)))) None)"
    if "stockData s = None"
    using that
    by (simp add: view_def StockChart_def Let_def hoveredPoint_def tooltipConfig_def)
  have e: "\<exists>t. tooltipConfig fmt (Some (chartPoints ?w ! i)) = Some t
           \<and> view fmt (step s (SelectRange r))
               = Svg (map (\<lambda>c. (xpos c, ypos c)) (chartPoints ?w))
                   (Some \<lparr> line_x = xpos (chartPoints ?w ! i),
                           line_y1 = padding, line_y2 = js_sub height padding,
                           dot_cx = xpos (chartPoints ?w ! i),
                           dot_cy = ypos (chartPoints ?w ! i),
                           tooltip = t,
                           tooltip_high = high (?w ! i),
                           tooltip_low = low (?w ! i) \<rparr>)"
    if h: "i < length ?w \<and> hoverIndex s = Some (Num (real i))" for i
  proof -
    from h have ne: "?w \<noteq> []" by auto
    from h have hp: "hoveredPoint (hoverIndex s) (chartPoints ?w) = Some (chartPoints ?w ! i)"
      by (simp add: hoveredPoint_def)
    obtain t where t: "tooltipConfig fmt (Some (chartPoints ?w ! i)) = Some t"
      using tooltipConfig_Some by blast
    from h have pt: "point (chartPoints ?w ! i) = ?w ! i"
      by (simp add: chartPoints_nth chartPoint_def)
    from StockChart_hover[OF ne hp t] t pt show ?thesis
      unfolding view_SelectRange by simp
  qed
  have f: "view fmt (step s (SelectRange r))
          = Svg (map (\<lambda>c. (xpos c, ypos c)) (chartPoints ?w)) None"
    if h: "?w \<noteq> [] \<and> hoverIndex s = Some (Num x) \<and> (x < 0 \<or> real (length ?w) \<le> x)" for x
  proof -
    from h have "hoveredPoint (hoverIndex s) (chartPoints ?w) = None"
      by (auto simp: hoveredPoint_def)
    with h StockChart_no_hover[of ?w "hoverIndex s" fmt] show ?thesis
      unfolding view_SelectRange by simp
  qed
  from a b c d e f show ?thesis by blast
qed

theorem hover_lifecycle_witness:
  "run initialUI [SetStockData series3] = ui3
   \<and> view (\<lambda>d. d) (run initialUI [SetStockData series3])
       = Svg [(Num 16, Num (824 / 5)), (Num 320, Num (328 / 5)), (Num 624, Num (1072 / 5))] None
   \<and> hoverIndex (step ui3 (MouseMove (Num 320) (Num 0) (Num 640))) = Some (Num 1)
   \<and> hoverIndex (step ui3 MouseLeave) = None
   \<and> view (\<lambda>d. d)
        (run initialUI
           [SetStockData series3, MouseMove (Num 320) (Num 0) (Num 640), SelectRange R2D])
       = Svg [(Num 16, Num (328 / 5)), (Num 624, Num (1072 / 5))]
           (Some \<lparr> line_x = Num 624, line_y1 = Num 16, line_y2 = Num 264,
                   dot_cx = Num 624, dot_cy = Num (1072 / 5),
                   tooltip = \<lparr> tooltipX = Num 444, tooltipY = Num (662 / 5),
                               tooltipWidth = Num 180, tooltipHeight = Num 70,
                               dateLabel = ''2024-01-04'' \<rparr>,
                   tooltip_high = Num 12, tooltip_low = Num 8 \<rparr>)
   \<and> view (\<lambda>d. d)
        (run initialUI
           [SetStockData series3, MouseMove (Num 320) (Num 0) (Num 640), SelectRange R1D])
       = Svg [(Num 16, Num 202)] None"
proof -
  let ?mv = "MouseMove (Num 320) (Num 0) (Num 640)"
  let ?b1 = "bar ''2024-01-02'' 9 11 8 10 100"
  let ?b2 = "bar ''2024-01-03'' 10 13 10 12 200"
  let ?b3 = "bar ''2024-01-04'' 12 12 8 9 300"
  define s1 where "s1 = ui3\<lparr>hoverIndex := Some (Num 1)\<rparr>"
  note t0 = hover_lifecycle [where s = initialUI and sd = series3 and fmt = "\<lambda>d. d"]
  note t3 = hover_lifecycle [where s = ui3 and clientX = "Num 320" and bounds_left = "Num 0"
      and bounds_width = "Num 640"]
  note t2 = hover_lifecycle [where s = s1 and r = R2D and fmt = "\<lambda>d. d"]
  note t1 = hover_lifecycle [where s = s1 and r = R1D and fmt = "\<lambda>d. d"]
  have w6: "filteredData (Some series3) R6M = [?b1, ?b2, ?b3]"
    by (simp add: filteredData_def series3_def)
  have w2: "filteredData (Some series3) R2D = [?b2, ?b3]"
    by (simp add: filteredData_def slice_def series3_def)
  have w1: "filteredData (Some series3) R1D = [?b3]"
    by (simp add: filteredData_def slice_def series3_def)
  have c3: "map (\<lambda>c. (xpos c, ypos c)) (chartPoints [?b1, ?b2, ?b3])
              = [(Num 16, Num (824 / 5)), (Num 320, Num (328 / 5)), (Num 624, Num (1072 / 5))]"
    by (simp add: chart_unfold bar_def)
  have c2: "chartPoints [?b2, ?b3]
              = [\<lparr> xpos = Num 16, ypos = Num (328 / 5), point = ?b2 \<rparr>,
                 \<lparr> xpos = Num 624, ypos = Num (1072 / 5), point = ?b3 \<rparr>]"
    by (simp add: chart_unfold bar_def)
  have c1: "map (\<lambda>c. (xpos c, ypos c)) (chartPoints [?b3]) = [(Num 16, Num 202)]"
    by (simp add: chart_unfold bar_def)
  have i0: "stockData initialUI = None" "selectedRange initialUI = R6M"
    by (simp_all add: initialUI_def)
  have a: "run initialUI [SetStockData series3] = ui3"
    by (simp add: run_def initialUI_def ui3_def)
  from t0 i0 have "view (\<lambda>d. d) (step initialUI (SetStockData series3))
      = (if filteredData (Some series3) R6M = [] then Placeholder
         else Svg (map (\<lambda>c. (xpos c, ypos c)) (chartPoints (filteredData (Some series3) R6M)))
                None)"
    by simp
  then have b: "view (\<lambda>d. d) (run initialUI [SetStockData series3])
       = Svg [(Num 16, Num (824 / 5)), (Num 320, Num (328 / 5)), (Num 624, Num (1072 / 5))] None"
    by (simp only: run_def foldl.simps w6 c3) simp
  have u3: "stockData ui3 = Some series3" "selectedRange ui3 = R6M" "hoverIndex ui3 = None"
    by (simp_all add: ui3_def)
  have ne3: "chartPoints [?b1, ?b2, ?b3] \<noteq> []" by simp
  have m: "handleMouseMove (chartPoints [?b1, ?b2, ?b3]) (Num 320) (Num 0) (Num 640) None
           = Some (Num 1)"
    using handleMouseMove_Num[OF ne3, of 640 320 0 None] by simp
  have mv: "step ui3 ?mv = s1"
    using m by (simp add: s1_def u3 w6 Let_def)
  then have c: "hoverIndex (step ui3 ?mv) = Some (Num 1)"
    by (simp add: s1_def)
  from t3 have d: "hoverIndex (step ui3 MouseLeave) = None"
    by (simp add: u3 w6)
  have s1f: "stockData s1 = Some series3" "hoverIndex s1 = Some (Num (real 1))"
    by (simp_all add: s1_def u3)
  have r2: "run initialUI [SetStockData series3, ?mv, SelectRange R2D] = step s1 (SelectRange R2D)"
    using a mv by (simp only: run_def foldl.simps)
  have r1: "run initialUI [SetStockData series3, ?mv, SelectRange R1D] = step s1 (SelectRange R1D)"
    using a mv by (simp only: run_def foldl.simps)
  from t2 have "\<forall>i. i < length (filteredData (stockData s1) R2D)
        \<and> hoverIndex s1 = Some (Num (real i)) \<longrightarrow>
        (\<exists>t. tooltipConfig (\<lambda>d. d) (Some (chartPoints (filteredData (stockData s1) R2D) ! i))
               = Some t
           \<and> view (\<lambda>d. d) (step s1 (SelectRange R2D))
               = Svg (map (\<lambda>c. (xpos c, ypos c)) (chartPoints (filteredData (stockData s1) R2D)))
                   (Some \<lparr> line_x = xpos (chartPoints (filteredData (stockData s1) R2D) ! i),
                           line_y1 = padding, line_y2 = js_sub height padding,
                           dot_cx = xpos (chartPoints (filteredData (stockData s1) R2D) ! i),
                           dot_cy = ypos (chartPoints (filteredData (stockData s1) R2D) ! i),
                           tooltip = t,
                           tooltip_high = high (filteredData (stockData s1) R2D ! i),
                           tooltip_low = low (filteredData (stockData s1) R2D ! i) \<rparr>))"
    by blast
  from this[rule_format, of 1] s1f
  obtain t where t: "tooltipConfig (\<lambda>d. d) (Some (chartPoints [?b2, ?b3] ! 1)) = Some t"
    and v: "view (\<lambda>d. d) (step s1 (SelectRange R2D))
               = Svg (map (\<lambda>c. (xpos c, ypos c)) (chartPoints [?b2, ?b3]))
                   (Some \<lparr> line_x = xpos (chartPoints [?b2, ?b3] ! 1),
                           line_y1 = padding, line_y2 = js_sub height padding,
                           dot_cx = xpos (chartPoints [?b2, ?b3] ! 1),
                           dot_cy = ypos (chartPoints [?b2, ?b3] ! 1),
                           tooltip = t,
                           tooltip_high = high ([?b2, ?b3] ! 1),
                           tooltip_low = low ([?b2, ?b3] ! 1) \<rparr>)"
    by (auto simp: w2)
  from t[unfolded c2] have tv: "t = \<lparr> tooltipX = Num 444, tooltipY = Num (662 / 5),
                         tooltipWidth = Num 180, tooltipHeight = Num 70,
                         dateLabel = ''2024-01-04'' \<rparr>"
    by (simp add: tooltipConfig_def Let_def padding_def width_def bar_def)
  from v[unfolded c2] have e: "view (\<lambda>d. d) (step s1 (SelectRange R2D))
       = Svg [(Num 16, Num (328 / 5)), (Num 624, Num (1072 / 5))]
           (Some \<lparr> line_x = Num 624, line_y1 = Num 16, line_y2 = Num 264,
                   dot_cx = Num 624, dot_cy = Num (1072 / 5),
                   tooltip = \<lparr> tooltipX = Num 444, tooltipY = Num (662 / 5),
                               tooltipWidth = Num 180, tooltipHeight = Num 70,
                               dateLabel = ''2024-01-04'' \<rparr>,
                   tooltip_high = Num 12, tooltip_low = Num 8 \<rparr>)"
    by (simp add: tv padding_def height_def bar_def)
  from t1 have "\<forall>x. filteredData (stockData s1) R1D \<noteq> [] \<and> hoverIndex s1 = Some (Num x)
          \<and> (x < 0 \<or> real (length (filteredData (stockData s1) R1D)) \<le> x) \<longrightarrow>
        view (\<lambda>d. d) (step s1 (SelectRange R1D))
          = Svg (map (\<lambda>c. (xpos c, ypos c)) (chartPoints (filteredData (stockData s1) R1D))) None"
    by blast
  from this[rule_format, of 1] s1f
  have f: "view (\<lambda>d. d) (step s1 (SelectRange R1D)) = Svg [(Num 16, Num 202)] None"
    by (simp add: w1 c1)
  from a b c d e f show ?thesis
    unfolding r2 r1 by blast
qed

text \<open>
  C2 as stated fails. With the three-bar series in its initial range, pointer movement
  over the middle of the chart sets the hover index to \<open>1\<close>; the range 2D is then
  selected with no pointer event in between (a key press on the focused button does
  that). The window has changed, the hover index is still \<open>1\<close>, and it selects a point
  of the new window, which is drawn hovered.
\<close>

theorem hover_reset_counterexample:
  "filteredData (Some series3) R6M \<noteq> filteredData (Some series3) R2D
   \<and> hoverIndex (run ui3 [MouseMove (Num 320) (Num 0) (Num 640), SelectRange R2D])
       = Some (Num 1)
   \<and> selectedRange (run ui3 [MouseMove (Num 320) (Num 0) (Num 640), SelectRange R2D]) = R2D
   \<and> hoveredPoint (Some (Num 1)) (chartPoints (filteredData (Some series3) R2D))
       = Some (chartPoints (filteredData (Some series3) R2D) ! 1)"
proof -
  have w6: "filteredData (Some series3) R6M = data series3"
    by (simp add: filteredData_def)
  have w2: "filteredData (Some series3) R2D = drop 1 (data series3)"
    by (simp add: filteredData_def slice_def series3_def)
  have l3: "length (data series3) = 3" by (simp add: series3_def)
  have a: "filteredData (Some series3) R6M \<noteq> filteredData (Some series3) R2D"
    unfolding w6 w2 by (simp add: series3_def)
  have ne3: "data series3 \<noteq> []" by (simp add: series3_def)
  then have ne: "chartPoints (data series3) \<noteq> []" by simp
  have m: "handleMouseMove (chartPoints (data series3)) (Num 320) (Num 0) (Num 640) None
           = Some (Num 1)"
    using handleMouseMove_Num[OF ne, of 640 320 0 None] l3 by simp
  have b: "step ui3 (MouseMove (Num 320) (Num 0) (Num 640)) = ui3\<lparr>hoverIndex := Some (Num 1)\<rparr>"
    using m l3 ne3 by (simp add: ui3_def w6 Let_def)
  have c: "run ui3 [MouseMove (Num 320) (Num 0) (Num 640), SelectRange R2D]
           = ui3\<lparr>hoverIndex := Some (Num 1), selectedRange := R2D\<rparr>"
    by (simp only: run_def foldl.simps b) simp
  have d: "hoveredPoint (Some (Num 1)) (chartPoints (filteredData (Some series3) R2D))
       = Some (chartPoints (filteredData (Some series3) R2D) ! 1)"
    using index_by_nat[of 1 "chartPoints (filteredData (Some series3) R2D)"] l3
    by (simp add: hoveredPoint_def w2)
  from a c d show ?thesis by (simp add: ui3_def)
qed

end
